theory Spec2Isabelle
  imports Main "HOL-Library.Word"
begin

unbundle bit_operations_syntax

section \<open>Strings of the host language\<close>

text \<open>
  The resume builder is a TypeScript component. Its strings are sequences of 16-bit code
  units; \<open>length\<close> counts code units and equality compares them one by one. String
  literals of the source are ASCII (one tip apart, which holds an en dash), so a literal is
  written as an Isabelle string and injected with \<open>js\<close>.
\<close>

type_synonym unit16 = "16 word"
type_synonym jsstring = "unit16 list"

definition js :: "string \<Rightarrow> jsstring" where
  "js s = map of_char s"

text \<open>
  \<open>String.prototype.trim\<close> removes, at both ends, the code units that are white space or
  line terminators of the language: TAB, LF, VT, FF, CR, SPACE, NBSP, U+1680,
  U+2000 .. U+200A, U+2028, U+2029, U+202F, U+205F, U+3000 and the byte order mark. All of
  them lie in the basic plane, so the test is on single code units. The regular-expression
  class \<open>\s\<close> is the same set.
\<close>

definition isWhiteSpace :: "unit16 \<Rightarrow> bool" where
  "isWhiteSpace c =
     (c = 0x09 \<or> c = 0x0A \<or> c = 0x0B \<or> c = 0x0C \<or> c = 0x0D \<or> c = 0x20 \<or> c = 0xA0
      \<or> c = 0x1680 \<or> (0x2000 \<le> c \<and> c \<le> 0x200A) \<or> c = 0x2028 \<or> c = 0x2029
      \<or> c = 0x202F \<or> c = 0x205F \<or> c = 0x3000 \<or> c = 0xFEFF)"

definition trim :: "jsstring \<Rightarrow> jsstring" where
  "trim s = rev (dropWhile isWhiteSpace (rev (dropWhile isWhiteSpace s)))"

section \<open>The resume document\<close>

text \<open>
  The types of the component. Records of one theory share a name space, and \<open>id\<close> is
  the identity function of HOL, so the fields of the list records carry a prefix:
  \<open>exp_\<close>, \<open>edu_\<close>, \<open>proj_\<close>, \<open>skill_\<close>, \<open>item_\<close>.
\<close>

record PersonalInfo =
  fullName :: jsstring
  headline :: jsstring
  email :: jsstring
  phone :: jsstring
  location :: jsstring
  website :: jsstring
  linkedin :: jsstring
  summary :: jsstring

record Experience =
  exp_id :: jsstring
  exp_role :: jsstring
  exp_company :: jsstring
  exp_location :: jsstring
  exp_startDate :: jsstring
  exp_endDate :: jsstring
  exp_bullets :: "jsstring list"

record Education =
  edu_id :: jsstring
  edu_school :: jsstring
  edu_degree :: jsstring
  edu_startDate :: jsstring
  edu_endDate :: jsstring
  edu_details :: jsstring
  edu_location :: jsstring

record Project =
  proj_id :: jsstring
  proj_name :: jsstring
  proj_description :: jsstring
  proj_link :: jsstring
  proj_highlights :: "jsstring list"

record SkillBlock =
  skill_id :: jsstring
  skill_label :: jsstring
  skill_items :: jsstring

record ChecklistItem =
  item_id :: jsstring
  item_label :: jsstring
  required :: bool
  satisfied :: bool
  tips :: "jsstring list"

text \<open>
  The state of the \<open>ResumeBuilder\<close> component: five state variables, which together are
  the resume document.
\<close>

record ResumeDocument =
  personal :: PersonalInfo
  experiences :: "Experience list"
  educations :: "Education list"
  projects :: "Project list"
  skills :: "SkillBlock list"

definition basePersonalInfo :: PersonalInfo where
  "basePersonalInfo =
     \<lparr>fullName = [], headline = [], email = [], phone = [], location = [], website = [],
      linkedin = [], summary = []\<rparr>"

text \<open>
  The factories stamp a fresh identifier, drawn from the host's random source; the model
  takes the identifier as an argument.
\<close>

definition createExperience :: "jsstring \<Rightarrow> Experience" where
  "createExperience i =
     \<lparr>exp_id = i, exp_role = [], exp_company = [], exp_location = [], exp_startDate = [],
      exp_endDate = [], exp_bullets = []\<rparr>"

definition createEducation :: "jsstring \<Rightarrow> Education" where
  "createEducation i =
     \<lparr>edu_id = i, edu_school = [], edu_degree = [], edu_startDate = [], edu_endDate = [],
      edu_details = [], edu_location = []\<rparr>"

definition createProject :: "jsstring \<Rightarrow> Project" where
  "createProject i =
     \<lparr>proj_id = i, proj_name = [], proj_description = [], proj_link = [],
      proj_highlights = []\<rparr>"

definition createSkillBlock :: "jsstring \<Rightarrow> SkillBlock" where
  "createSkillBlock i = \<lparr>skill_id = i, skill_label = [], skill_items = []\<rparr>"

section \<open>The checklist\<close>

text \<open>
  The memoised \<open>checklist\<close> of \<open>ResumeBuilder\<close>. It reads \<open>personal\<close>,
  \<open>experiences\<close>, \<open>educations\<close> and \<open>skills\<close>, which are also its dependency list,
  so it is a function of the document. \<open>Array.prototype.some\<close> is \<open>list_ex\<close>.
\<close>

definition checklist :: "ResumeDocument \<Rightarrow> ChecklistItem list" where
  "checklist d =
     [\<lparr>item_id = js ''contact'',
       item_label = js ''Contact section is complete'',
       required = True,
       satisfied =
         (length (trim (fullName (personal d))) > 0 \<and>
          length (trim (headline (personal d))) > 0 \<and>
          length (trim (email (personal d))) > 0 \<and>
          length (trim (location (personal d))) > 0),
       tips = [js ''Include full name, role headline, and location.'',
               js ''Add best contact email and optional phone number.'']\<rparr>,
      \<lparr>item_id = js ''summary'',
       item_label = js ''Include a focused summary'',
       required = False,
       satisfied = (length (trim (summary (personal d))) > 60),
       tips = [js ''Write 2'' @ [0x2013] @ js ''3 concise sentences highlighting domain expertise.'',
               js ''Reference years of experience and a core differentiator.'']\<rparr>,
      \<lparr>item_id = js ''experience'',
       item_label = js ''At least one experience entry has impact bullets'',
       required = True,
       satisfied = list_ex (\<lambda>exp. length (exp_bullets exp) \<ge> 3) (experiences d),
       tips = [js ''Aim for 3+ quantified bullets per recent role.'',
               js ''Start each bullet with strong action verbs.'']\<rparr>,
      \<lparr>item_id = js ''education'',
       item_label = js ''Education contains degree or certification'',
       required = False,
       satisfied =
         list_ex (\<lambda>edu. length (trim (edu_degree edu)) > 0 \<or> length (trim (edu_details edu)) > 0)
           (educations d),
       tips = [js ''List degree, major, and graduation year.'',
               js ''Add standout coursework, honors, or certifications.'']\<rparr>,
      \<lparr>item_id = js ''skills'',
       item_label = js ''Skill blocks highlight tools and strengths'',
       required = True,
       satisfied = list_ex (\<lambda>block. length (trim (skill_items block)) > 0) (skills d),
       tips = [js ''Group skills by tooling, methodologies, and domains.'',
               js ''Mirror keywords used in your target job descriptions.'']\<rparr>]"

text \<open>
  \<open>ChecklistPanel\<close> derives two values from the list it is given and shows them with the
  length of the list: \<open>complete\<close> (\<open>every\<close> item satisfied) and \<open>completedCount\<close>
  (the number of satisfied items).
\<close>

definition complete :: "ChecklistItem list \<Rightarrow> bool" where
  "complete items = list_all (\<lambda>item. satisfied item) items"

definition completedCount :: "ChecklistItem list \<Rightarrow> nat" where
  "completedCount items = length (filter (\<lambda>item. satisfied item) items)"

section \<open>The suggestion engine\<close>

subsection \<open>Regular expressions of the library\<close>

text \<open>
  The four patterns of \<open>roleSuggestionLibrary\<close> are alternations of words, with \<open>\s*\<close>
  inside two of them, under the flag \<open>i\<close> and no other flag. An alternative is a list
  of atoms: a literal character or \<open>\s*\<close>. The patterns carry neither \<open>g\<close> nor
  \<open>y\<close>, so \<open>test\<close> keeps no position between calls and is a function of the string.
\<close>

datatype rx_atom = Lit unit16 | WsStar

type_synonym rx_pattern = "rx_atom list list"

text \<open>
  Under \<open>i\<close> two characters match when their canonical forms are equal. The canonical
  form of an ASCII letter is its upper case; the canonical form of a code unit from 128 on
  is never below 128. Every literal of the four patterns is ASCII, so code units from 128 on
  are left as they are: they match no literal, here as in the language.
\<close>

definition canonicalize :: "unit16 \<Rightarrow> unit16" where
  "canonicalize c = (if 0x61 \<le> c \<and> c \<le> 0x7A then c - 0x20 else c)"

text \<open>
  \<open>matchAtoms as s\<close>: the alternative \<open>as\<close> matches a prefix of \<open>s\<close>. The star is
  greedy: it first takes one more white-space unit and falls back to taking none.
\<close>

fun matchAtoms :: "rx_atom list \<Rightarrow> jsstring \<Rightarrow> bool" where
  "matchAtoms [] s = True"
| "matchAtoms (Lit p # as) [] = False"
| "matchAtoms (Lit p # as) (c # s) = (canonicalize c = canonicalize p \<and> matchAtoms as s)"
| "matchAtoms (WsStar # as) [] = matchAtoms as []"
| "matchAtoms (WsStar # as) (c # s) =
     ((isWhiteSpace c \<and> matchAtoms (WsStar # as) s) \<or> matchAtoms as (c # s))"

text \<open>
  \<open>RegExp.prototype.test\<close>: some alternative matches at some start position, tried from
  the left, the position after the last unit included.
\<close>

fun rx_test :: "rx_pattern \<Rightarrow> jsstring \<Rightarrow> bool" where
  "rx_test alts [] = list_ex (\<lambda>as. matchAtoms as []) alts"
| "rx_test alts (c # s) = (list_ex (\<lambda>as. matchAtoms as (c # s)) alts \<or> rx_test alts s)"

definition lits :: "string \<Rightarrow> rx_atom list" where
  "lits w = map (\<lambda>c. Lit (of_char c)) w"

record SuggestionEntry =
  pattern :: rx_pattern
  bullets :: "jsstring list"

definition softwareBullets :: "jsstring list" where
  "softwareBullets =
     [js ''Designed and shipped responsive interfaces with React, TypeScript, and modern CSS tooling.'',
      js ''Collaborated with cross-functional partners to ship features that unblocked revenue-critical workflows.'',
      js ''Instrumented analytics and alerting that reduced production issues and improved deployment confidence.'']"

definition productBullets :: "jsstring list" where
  "productBullets =
     [js ''Defined product strategy by synthesizing user research, analytics, and stakeholder interviews.'',
      js ''Launched iterative experiments that increased activation and retention across the customer lifecycle.'',
      js ''Prioritized developer time through a discovery-to-delivery framework grounded in measurable outcomes.'']"

definition designBullets :: "jsstring list" where
  "designBullets =
     [js ''Crafted accessible design systems with documented patterns and component libraries.'',
      js ''Conducted moderated usability sessions that surfaced critical workflow friction.'',
      js ''Partnered with engineers to validate interaction fidelity and deliver pixel-perfect implementations.'']"

definition dataBullets :: "jsstring list" where
  "dataBullets =
     [js ''Delivered end-to-end data products leveraging Python, SQL, and BI tooling to answer high-impact questions.'',
      js ''Built predictive models that increased operational efficiency and informed strategic decisions.'',
      js ''Implemented automated data quality monitors that strengthened trust in dashboards and reports.'']"

definition softwarePattern :: rx_pattern where
  "softwarePattern =
     [lits ''software'', lits ''full'' @ [WsStar] @ lits ''stack'', lits ''backend'',
      lits ''frontend'', lits ''web'', lits ''developer'', lits ''engineer'']"

definition productPattern :: rx_pattern where
  "productPattern =
     [lits ''product'' @ [WsStar] @ lits ''manager'', lits ''pm'', lits ''product lead'']"

definition designPattern :: rx_pattern where
  "designPattern = [lits ''designer'', lits ''ux'', lits ''ui'']"

definition dataPattern :: rx_pattern where
  "dataPattern = [lits ''data'', lits ''analytics'', lits ''science'']"

definition roleSuggestionLibrary :: "SuggestionEntry list" where
  "roleSuggestionLibrary =
     [\<lparr>pattern = softwarePattern, bullets = softwareBullets\<rparr>,
      \<lparr>pattern = productPattern, bullets = productBullets\<rparr>,
      \<lparr>pattern = designPattern, bullets = designBullets\<rparr>,
      \<lparr>pattern = dataPattern, bullets = dataBullets\<rparr>]"

definition genericBullets :: "jsstring list" where
  "genericBullets =
     [js ''Partnered with stakeholders to prioritize initiatives by impact and effort.'',
      js ''Applied measurable goals to track success and iterate quickly on feedback.'',
      js ''Mentored teammates and strengthened team operating rituals to raise the quality bar.'']"

subsection \<open>Sets of the host language\<close>

text \<open>
  \<open>new Set(xs)\<close> adds the elements of \<open>xs\<close> from left to right; adding an element that
  is already there changes nothing, and the set lists its elements in insertion order.
  Spreading the set into an array gives that order. For strings, the equality of a set is
  equality of code units.
\<close>

definition set_add :: "'a list \<Rightarrow> 'a \<Rightarrow> 'a list" where
  "set_add s x = (if x \<in> set s then s else s @ [x])"

definition newSet :: "'a list \<Rightarrow> 'a list" where
  "newSet xs = foldl set_add [] xs"

definition getSuggestedBullets :: "jsstring \<Rightarrow> jsstring \<Rightarrow> jsstring list" where
  "getSuggestedBullets role summaryText =
     (let libraryMatches =
            concat (map bullets
              (filter (\<lambda>entry. rx_test (pattern entry) role \<or> rx_test (pattern entry) summaryText)
                 roleSuggestionLibrary))
      in newSet (libraryMatches @ genericBullets))"

text \<open>
  The specification's wording of step 4: the sequence with every later occurrence of a
  string removed.
\<close>

fun dedupFirst :: "'a list \<Rightarrow> 'a list" where
  "dedupFirst [] = []"
| "dedupFirst (x # xs) = x # dedupFirst (filter (\<lambda>y. y \<noteq> x) xs)"

section \<open>Updating a record of a list\<close>

text \<open>
  The four change handlers take an identifier and an object of type \<open>Partial<T>\<close>: each
  field of the record is either present, with its new value, or absent. The object may
  mention any field of \<open>T\<close>, the identifier included. Every update the form builds
  takes the value of a field it mentions from a control or from the record on display, so
  a field that is present holds a string or a list of strings.
\<close>

record ExperienceUpdates =
  new_exp_id :: "jsstring option"
  new_exp_role :: "jsstring option"
  new_exp_company :: "jsstring option"
  new_exp_location :: "jsstring option"
  new_exp_startDate :: "jsstring option"
  new_exp_endDate :: "jsstring option"
  new_exp_bullets :: "jsstring list option"

record EducationUpdates =
  new_edu_id :: "jsstring option"
  new_edu_school :: "jsstring option"
  new_edu_degree :: "jsstring option"
  new_edu_startDate :: "jsstring option"
  new_edu_endDate :: "jsstring option"
  new_edu_details :: "jsstring option"
  new_edu_location :: "jsstring option"

record ProjectUpdates =
  new_proj_id :: "jsstring option"
  new_proj_name :: "jsstring option"
  new_proj_description :: "jsstring option"
  new_proj_link :: "jsstring option"
  new_proj_highlights :: "jsstring list option"

record SkillBlockUpdates =
  new_skill_id :: "jsstring option"
  new_skill_label :: "jsstring option"
  new_skill_items :: "jsstring option"

definition noExperienceUpdates :: ExperienceUpdates where
  "noExperienceUpdates =
     \<lparr>new_exp_id = None, new_exp_role = None, new_exp_company = None, new_exp_location = None,
      new_exp_startDate = None, new_exp_endDate = None, new_exp_bullets = None\<rparr>"

definition noEducationUpdates :: EducationUpdates where
  "noEducationUpdates =
     \<lparr>new_edu_id = None, new_edu_school = None, new_edu_degree = None, new_edu_startDate = None,
      new_edu_endDate = None, new_edu_details = None, new_edu_location = None\<rparr>"

definition noProjectUpdates :: ProjectUpdates where
  "noProjectUpdates =
     \<lparr>new_proj_id = None, new_proj_name = None, new_proj_description = None,
      new_proj_link = None, new_proj_highlights = None\<rparr>"

definition noSkillBlockUpdates :: SkillBlockUpdates where
  "noSkillBlockUpdates = \<lparr>new_skill_id = None, new_skill_label = None, new_skill_items = None\<rparr>"

text \<open>
  The object spread \<open>{ ...record, ...updates }\<close>: every field of the record, overwritten
  by the field of \<open>updates\<close> where that one is present.
\<close>

definition overwrite :: "'a \<Rightarrow> 'a option \<Rightarrow> 'a" where
  "overwrite old new = (case new of None \<Rightarrow> old | Some v \<Rightarrow> v)"

definition spreadExperience :: "Experience \<Rightarrow> ExperienceUpdates \<Rightarrow> Experience" where
  "spreadExperience exp updates =
     \<lparr>exp_id = overwrite (exp_id exp) (new_exp_id updates),
      exp_role = overwrite (exp_role exp) (new_exp_role updates),
      exp_company = overwrite (exp_company exp) (new_exp_company updates),
      exp_location = overwrite (exp_location exp) (new_exp_location updates),
      exp_startDate = overwrite (exp_startDate exp) (new_exp_startDate updates),
      exp_endDate = overwrite (exp_endDate exp) (new_exp_endDate updates),
      exp_bullets = overwrite (exp_bullets exp) (new_exp_bullets updates)\<rparr>"

definition spreadEducation :: "Education \<Rightarrow> EducationUpdates \<Rightarrow> Education" where
  "spreadEducation edu updates =
     \<lparr>edu_id = overwrite (edu_id edu) (new_edu_id updates),
      edu_school = overwrite (edu_school edu) (new_edu_school updates),
      edu_degree = overwrite (edu_degree edu) (new_edu_degree updates),
      edu_startDate = overwrite (edu_startDate edu) (new_edu_startDate updates),
      edu_endDate = overwrite (edu_endDate edu) (new_edu_endDate updates),
      edu_details = overwrite (edu_details edu) (new_edu_details updates),
      edu_location = overwrite (edu_location edu) (new_edu_location updates)\<rparr>"

definition spreadProject :: "Project \<Rightarrow> ProjectUpdates \<Rightarrow> Project" where
  "spreadProject project updates =
     \<lparr>proj_id = overwrite (proj_id project) (new_proj_id updates),
      proj_name = overwrite (proj_name project) (new_proj_name updates),
      proj_description = overwrite (proj_description project) (new_proj_description updates),
      proj_link = overwrite (proj_link project) (new_proj_link updates),
      proj_highlights = overwrite (proj_highlights project) (new_proj_highlights updates)\<rparr>"

definition spreadSkillBlock :: "SkillBlock \<Rightarrow> SkillBlockUpdates \<Rightarrow> SkillBlock" where
  "spreadSkillBlock block updates =
     \<lparr>skill_id = overwrite (skill_id block) (new_skill_id updates),
      skill_label = overwrite (skill_label block) (new_skill_label updates),
      skill_items = overwrite (skill_items block) (new_skill_items updates)\<rparr>"

text \<open>
  Each handler passes a function of the previous list to the state setter; the model is
  that function, with the previous list as its last argument.
\<close>

definition handleExperienceChange ::
    "jsstring \<Rightarrow> ExperienceUpdates \<Rightarrow> Experience list \<Rightarrow> Experience list" where
  "handleExperienceChange i updates prev =
     map (\<lambda>exp. if exp_id exp = i then spreadExperience exp updates else exp) prev"

definition handleEducationChange ::
    "jsstring \<Rightarrow> EducationUpdates \<Rightarrow> Education list \<Rightarrow> Education list" where
  "handleEducationChange i updates prev =
     map (\<lambda>edu. if edu_id edu = i then spreadEducation edu updates else edu) prev"

definition handleProjectChange ::
    "jsstring \<Rightarrow> ProjectUpdates \<Rightarrow> Project list \<Rightarrow> Project list" where
  "handleProjectChange i updates prev =
     map (\<lambda>project. if proj_id project = i then spreadProject project updates else project) prev"

definition handleSkillChange ::
    "jsstring \<Rightarrow> SkillBlockUpdates \<Rightarrow> SkillBlock list \<Rightarrow> SkillBlock list" where
  "handleSkillChange i updates prev =
     map (\<lambda>block. if skill_id block = i then spreadSkillBlock block updates else block) prev"

section \<open>The editing operations of the form\<close>

text \<open>
  \<open>String.prototype.split\<close> with the separator \<open>"\n"\<close>: the pieces between line
  feeds, one more than there are line feeds; the empty string gives one empty piece.
\<close>

fun split_newline :: "jsstring \<Rightarrow> jsstring list" where
  "split_newline [] = [[]]"
| "split_newline (c # s) =
     (if c = 0x0A then [] # split_newline s
      else (case split_newline s of [] \<Rightarrow> [[c]] | line # lines \<Rightarrow> (c # line) # lines))"

text \<open>
  What the two "one per line" text areas store: the value of the text area split at line
  feeds, each line trimmed, empty lines dropped. The bullets area filters with
  \<open>line.length > 0\<close> and the highlights area with \<open>Boolean\<close>, which is true of a
  string exactly when it is not empty.
\<close>

definition linesOfTextArea :: "jsstring \<Rightarrow> jsstring list" where
  "linesOfTextArea v = filter (\<lambda>line. length line > 0) (map trim (split_newline v))"

text \<open>
  The suggestions rendered for an experience: the suggested bullets for its role and
  company, joined by one space, and the summary, without the bullets the experience already
  has. The first four are offered as buttons.
\<close>

definition suggestions :: "PersonalInfo \<Rightarrow> Experience \<Rightarrow> jsstring list" where
  "suggestions p exp =
     filter (\<lambda>bullet. bullet \<notin> set (exp_bullets exp))
       (getSuggestedBullets (exp_role exp @ js '' '' @ exp_company exp) (summary p))"

definition offeredSuggestions :: "PersonalInfo \<Rightarrow> Experience \<Rightarrow> jsstring list" where
  "offeredSuggestions p exp = take 4 (suggestions p exp)"

text \<open>The state the component starts in; the four identifiers come from the host.\<close>

definition initialDocument :: "jsstring \<Rightarrow> jsstring \<Rightarrow> jsstring \<Rightarrow> jsstring \<Rightarrow> ResumeDocument" where
  "initialDocument i1 i2 i3 i4 =
     \<lparr>personal = basePersonalInfo,
      experiences = [createExperience i1],
      educations = [createEducation i2],
      projects = [createProject i3],
      skills = [\<lparr>skill_id = i4, skill_label = js ''Core'', skill_items = []\<rparr>]\<rparr>"

datatype personal_field =
  FullName | Headline | Summary | Email | Phone | Location | Website | LinkedIn

datatype experience_field = Role | Company | ExpLocation | ExpStartDate | ExpEndDate

datatype project_field = ProjName | ProjDescription | ProjLink

datatype education_field =
  School | Degree | Details | EduStartDate | EduEndDate | EduLocation

datatype skill_field = SkillLabel | SkillItems

text \<open>
  The controls of the form. A control of a list section is rendered once per element of
  the list and closes over that element, so its event names the element by its position;
  the handler then receives that element's identifier. An "add" event carries the
  identifier the host generates.
\<close>

datatype ui_event =
    PersonalChange personal_field jsstring
  | AddRole jsstring
  | ExperienceChange nat experience_field jsstring
  | BulletsChange nat jsstring
  | AcceptSuggestion nat jsstring
  | RemoveRole nat
  | AddProject jsstring
  | ProjectChange nat project_field jsstring
  | HighlightsChange nat jsstring
  | RemoveProject nat
  | AddEducation jsstring
  | EducationChange nat education_field jsstring
  | RemoveEducation nat
  | AddBlock jsstring
  | SkillChange nat skill_field jsstring
  | RemoveBlock nat

fun setPersonalField :: "personal_field \<Rightarrow> jsstring \<Rightarrow> PersonalInfo \<Rightarrow> PersonalInfo" where
  "setPersonalField FullName v prev = prev\<lparr>fullName := v\<rparr>"
| "setPersonalField Headline v prev = prev\<lparr>headline := v\<rparr>"
| "setPersonalField Summary v prev = prev\<lparr>summary := v\<rparr>"
| "setPersonalField Email v prev = prev\<lparr>email := v\<rparr>"
| "setPersonalField Phone v prev = prev\<lparr>phone := v\<rparr>"
| "setPersonalField Location v prev = prev\<lparr>location := v\<rparr>"
| "setPersonalField Website v prev = prev\<lparr>website := v\<rparr>"
| "setPersonalField LinkedIn v prev = prev\<lparr>linkedin := v\<rparr>"

fun experienceFieldUpdate :: "experience_field \<Rightarrow> jsstring \<Rightarrow> ExperienceUpdates" where
  "experienceFieldUpdate Role v = noExperienceUpdates\<lparr>new_exp_role := Some v\<rparr>"
| "experienceFieldUpdate Company v = noExperienceUpdates\<lparr>new_exp_company := Some v\<rparr>"
| "experienceFieldUpdate ExpLocation v = noExperienceUpdates\<lparr>new_exp_location := Some v\<rparr>"
| "experienceFieldUpdate ExpStartDate v = noExperienceUpdates\<lparr>new_exp_startDate := Some v\<rparr>"
| "experienceFieldUpdate ExpEndDate v = noExperienceUpdates\<lparr>new_exp_endDate := Some v\<rparr>"

fun projectFieldUpdate :: "project_field \<Rightarrow> jsstring \<Rightarrow> ProjectUpdates" where
  "projectFieldUpdate ProjName v = noProjectUpdates\<lparr>new_proj_name := Some v\<rparr>"
| "projectFieldUpdate ProjDescription v = noProjectUpdates\<lparr>new_proj_description := Some v\<rparr>"
| "projectFieldUpdate ProjLink v = noProjectUpdates\<lparr>new_proj_link := Some v\<rparr>"

fun educationFieldUpdate :: "education_field \<Rightarrow> jsstring \<Rightarrow> EducationUpdates" where
  "educationFieldUpdate School v = noEducationUpdates\<lparr>new_edu_school := Some v\<rparr>"
| "educationFieldUpdate Degree v = noEducationUpdates\<lparr>new_edu_degree := Some v\<rparr>"
| "educationFieldUpdate Details v = noEducationUpdates\<lparr>new_edu_details := Some v\<rparr>"
| "educationFieldUpdate EduStartDate v = noEducationUpdates\<lparr>new_edu_startDate := Some v\<rparr>"
| "educationFieldUpdate EduEndDate v = noEducationUpdates\<lparr>new_edu_endDate := Some v\<rparr>"
| "educationFieldUpdate EduLocation v = noEducationUpdates\<lparr>new_edu_location := Some v\<rparr>"

fun skillFieldUpdate :: "skill_field \<Rightarrow> jsstring \<Rightarrow> SkillBlockUpdates" where
  "skillFieldUpdate SkillLabel v = noSkillBlockUpdates\<lparr>new_skill_label := Some v\<rparr>"
| "skillFieldUpdate SkillItems v = noSkillBlockUpdates\<lparr>new_skill_items := Some v\<rparr>"

definition rendered :: "'a list \<Rightarrow> nat \<Rightarrow> 'a option" where
  "rendered xs k = (if k < length xs then Some (xs ! k) else None)"

text \<open>
  One event of the form. The result is \<open>None\<close> when the form does not show the control:
  no element at that position, a "remove" button on a list of one element, a suggestion
  that is not among the four offered.
\<close>

fun ui_step :: "ui_event \<Rightarrow> ResumeDocument \<Rightarrow> ResumeDocument option" where
  "ui_step (PersonalChange f v) d = Some (d\<lparr>personal := setPersonalField f v (personal d)\<rparr>)"
| "ui_step (AddRole i) d = Some (d\<lparr>experiences := experiences d @ [createExperience i]\<rparr>)"
| "ui_step (ExperienceChange k f v) d =
     (case rendered (experiences d) k of
        None \<Rightarrow> None
      | Some exp \<Rightarrow>
          Some (d\<lparr>experiences :=
            handleExperienceChange (exp_id exp) (experienceFieldUpdate f v) (experiences d)\<rparr>))"
| "ui_step (BulletsChange k v) d =
     (case rendered (experiences d) k of
        None \<Rightarrow> None
      | Some exp \<Rightarrow>
          Some (d\<lparr>experiences :=
            handleExperienceChange (exp_id exp)
              (noExperienceUpdates\<lparr>new_exp_bullets := Some (linesOfTextArea v)\<rparr>)
              (experiences d)\<rparr>))"
| "ui_step (AcceptSuggestion k suggestion) d =
     (case rendered (experiences d) k of
        None \<Rightarrow> None
      | Some exp \<Rightarrow>
          if suggestion \<in> set (offeredSuggestions (personal d) exp)
          then Some (d\<lparr>experiences :=
            handleExperienceChange (exp_id exp)
              (noExperienceUpdates\<lparr>new_exp_bullets := Some (exp_bullets exp @ [suggestion])\<rparr>)
              (experiences d)\<rparr>)
          else None)"
| "ui_step (RemoveRole k) d =
     (case rendered (experiences d) k of
        None \<Rightarrow> None
      | Some exp \<Rightarrow>
          if length (experiences d) > 1
          then Some (d\<lparr>experiences := filter (\<lambda>item. exp_id item \<noteq> exp_id exp) (experiences d)\<rparr>)
          else None)"
| "ui_step (AddProject i) d = Some (d\<lparr>projects := projects d @ [createProject i]\<rparr>)"
| "ui_step (ProjectChange k f v) d =
     (case rendered (projects d) k of
        None \<Rightarrow> None
      | Some project \<Rightarrow>
          Some (d\<lparr>projects :=
            handleProjectChange (proj_id project) (projectFieldUpdate f v) (projects d)\<rparr>))"
| "ui_step (HighlightsChange k v) d =
     (case rendered (projects d) k of
        None \<Rightarrow> None
      | Some project \<Rightarrow>
          Some (d\<lparr>projects :=
            handleProjectChange (proj_id project)
              (noProjectUpdates\<lparr>new_proj_highlights := Some (linesOfTextArea v)\<rparr>)
              (projects d)\<rparr>))"
| "ui_step (RemoveProject k) d =
     (case rendered (projects d) k of
        None \<Rightarrow> None
      | Some project \<Rightarrow>
          if length (projects d) > 1
          then Some (d\<lparr>projects := filter (\<lambda>item. proj_id item \<noteq> proj_id project) (projects d)\<rparr>)
          else None)"
| "ui_step (AddEducation i) d = Some (d\<lparr>educations := educations d @ [createEducation i]\<rparr>)"
| "ui_step (EducationChange k f v) d =
     (case rendered (educations d) k of
        None \<Rightarrow> None
      | Some edu \<Rightarrow>
          Some (d\<lparr>educations :=
            handleEducationChange (edu_id edu) (educationFieldUpdate f v) (educations d)\<rparr>))"
| "ui_step (RemoveEducation k) d =
     (case rendered (educations d) k of
        None \<Rightarrow> None
      | Some edu \<Rightarrow>
          if length (educations d) > 1
          then Some (d\<lparr>educations := filter (\<lambda>item. edu_id item \<noteq> edu_id edu) (educations d)\<rparr>)
          else None)"
| "ui_step (AddBlock i) d = Some (d\<lparr>skills := skills d @ [createSkillBlock i]\<rparr>)"
| "ui_step (SkillChange k f v) d =
     (case rendered (skills d) k of
        None \<Rightarrow> None
      | Some block \<Rightarrow>
          Some (d\<lparr>skills :=
            handleSkillChange (skill_id block) (skillFieldUpdate f v) (skills d)\<rparr>))"
| "ui_step (RemoveBlock k) d =
     (case rendered (skills d) k of
        None \<Rightarrow> None
      | Some block \<Rightarrow>
          if length (skills d) > 1
          then Some (d\<lparr>skills := filter (\<lambda>item. skill_id item \<noteq> skill_id block) (skills d)\<rparr>)
          else None)"

text \<open>The documents the form can hold: the initial one and every one an event leads to.\<close>

inductive reachable :: "ResumeDocument \<Rightarrow> bool" where
  init: "reachable (initialDocument i1 i2 i3 i4)"
| step: "reachable d \<Longrightarrow> ui_step ev d = Some d' \<Longrightarrow> reachable d'"

section \<open>Export\<close>

subsection \<open>The values that are serialised\<close>

text \<open>
  The host's \<open>JSON.stringify\<close> and \<open>JSON.parse\<close>, for the kinds of value the document
  is made of: strings, arrays and plain objects. An object is the list of its properties in
  the order the host enumerates them in.
\<close>

datatype json = JString jsstring | JArray "json list" | JObject "(jsstring \<times> json) list"

subsection \<open>\<open>JSON.stringify\<close>\<close>

definition isLeadingSurrogate :: "unit16 \<Rightarrow> bool" where
  "isLeadingSurrogate c = (0xD800 \<le> c \<and> c \<le> 0xDBFF)"

definition isTrailingSurrogate :: "unit16 \<Rightarrow> bool" where
  "isTrailingSurrogate c = (0xDC00 \<le> c \<and> c \<le> 0xDFFF)"

definition hexDigit :: "unit16 \<Rightarrow> unit16" where
  "hexDigit n = (if n < 10 then 0x30 + n else 0x61 + (n - 10))"

text \<open>\<open>UnicodeEscape\<close>: a backslash, \<open>u\<close> and four lower-case hexadecimal digits.\<close>

definition UnicodeEscape :: "unit16 \<Rightarrow> jsstring" where
  "UnicodeEscape c =
     [0x5C, 0x75, hexDigit (drop_bit 12 c), hexDigit (drop_bit 8 c AND 0xF),
      hexDigit (drop_bit 4 c AND 0xF), hexDigit (c AND 0xF)]"

text \<open>
  One code point that is a single code unit: the two-character escapes for backspace, tab,
  line feed, form feed, carriage return, the double quote and the backslash; a unicode
  escape for any other unit below space and for a surrogate (which, standing alone, is not
  part of a pair); the unit itself otherwise.
\<close>

definition quoteUnit :: "unit16 \<Rightarrow> jsstring" where
  "quoteUnit c =
     (if c = 0x08 then [0x5C, 0x62]
      else if c = 0x09 then [0x5C, 0x74]
      else if c = 0x0A then [0x5C, 0x6E]
      else if c = 0x0C then [0x5C, 0x66]
      else if c = 0x0D then [0x5C, 0x72]
      else if c = 0x22 then [0x5C, 0x22]
      else if c = 0x5C then [0x5C, 0x5C]
      else if c < 0x20 \<or> isLeadingSurrogate c \<or> isTrailingSurrogate c then UnicodeEscape c
      else [c])"

text \<open>
  The code points of a string, from the left: a leading surrogate followed by a trailing
  one is one code point, written as its two units; every other unit is a code point of its
  own.
\<close>

fun quoteUnits :: "jsstring \<Rightarrow> jsstring" where
  "quoteUnits [] = []"
| "quoteUnits [c] = quoteUnit c"
| "quoteUnits (c # d # s) =
     (if isLeadingSurrogate c \<and> isTrailingSurrogate d then c # d # quoteUnits s
      else quoteUnit c @ quoteUnits (d # s))"

definition QuoteJSONString :: "jsstring \<Rightarrow> jsstring" where
  "QuoteJSONString s = [0x22] @ quoteUnits s @ [0x22]"

fun joinWith :: "jsstring \<Rightarrow> jsstring list \<Rightarrow> jsstring" where
  "joinWith sep [] = []"
| "joinWith sep [x] = x"
| "joinWith sep (x # y # xs) = x @ sep @ joinWith sep (y # xs)"

text \<open>
  \<open>SerializeJSONProperty\<close> with its two cases \<open>SerializeJSONArray\<close> and
  \<open>SerializeJSONObject\<close>, for the gap \<open>gap\<close> and the current indentation \<open>indent\<close>.
\<close>

definition wrap :: "jsstring \<Rightarrow> jsstring \<Rightarrow> jsstring \<Rightarrow> jsstring \<Rightarrow> jsstring \<Rightarrow> jsstring list \<Rightarrow> jsstring" where
  "wrap opening closing gap stepback indent partial =
     (if partial = [] then opening @ closing
      else if gap = [] then opening @ joinWith [0x2C] partial @ closing
      else opening @ [0x0A] @ indent @ joinWith ([0x2C, 0x0A] @ indent) partial
             @ [0x0A] @ stepback @ closing)"

primrec SerializeJSONProperty :: "json \<Rightarrow> jsstring \<Rightarrow> jsstring \<Rightarrow> jsstring" where
  "SerializeJSONProperty (JString s) gap indent = QuoteJSONString s"
| "SerializeJSONProperty (JArray vs) gap indent =
     wrap [0x5B] [0x5D] gap indent (indent @ gap)
       (map (\<lambda>v. SerializeJSONProperty v gap (indent @ gap)) vs)"
| "SerializeJSONProperty (JObject ms) gap indent =
     wrap [0x7B] [0x7D] gap indent (indent @ gap)
       (map (\<lambda>(k, strP). QuoteJSONString k @ [0x3A] @ (if gap = [] then [] else [0x20]) @ strP)
          (map (map_prod id (\<lambda>v. SerializeJSONProperty v gap (indent @ gap))) ms))"

text \<open>
  \<open>JSON.stringify(value, null, space)\<close> for a number \<open>space\<close>: the gap is that many
  spaces, ten at most.
\<close>

definition JSON_stringify :: "json \<Rightarrow> nat \<Rightarrow> jsstring" where
  "JSON_stringify v space = SerializeJSONProperty v (replicate (min 10 space) 0x20) []"

subsection \<open>\<open>JSON.parse\<close>\<close>

text \<open>The white space of the JSON grammar: tab, line feed, carriage return, space.\<close>

definition isJSONWhiteSpace :: "unit16 \<Rightarrow> bool" where
  "isJSONWhiteSpace c = (c = 0x09 \<or> c = 0x0A \<or> c = 0x0D \<or> c = 0x20)"

definition skipWs :: "jsstring \<Rightarrow> jsstring" where
  "skipWs s = dropWhile isJSONWhiteSpace s"

definition hexValue :: "unit16 \<Rightarrow> unit16 option" where
  "hexValue c =
     (if 0x30 \<le> c \<and> c \<le> 0x39 then Some (c - 0x30)
      else if 0x61 \<le> c \<and> c \<le> 0x66 then Some (c - 0x61 + 10)
      else if 0x41 \<le> c \<and> c \<le> 0x46 then Some (c - 0x41 + 10)
      else None)"

text \<open>The character a two-character escape stands for.\<close>

definition unescape :: "unit16 \<Rightarrow> unit16 option" where
  "unescape e =
     (if e = 0x22 then Some 0x22
      else if e = 0x5C then Some 0x5C
      else if e = 0x2F then Some 0x2F
      else if e = 0x62 then Some 0x08
      else if e = 0x66 then Some 0x0C
      else if e = 0x6E then Some 0x0A
      else if e = 0x72 then Some 0x0D
      else if e = 0x74 then Some 0x09
      else None)"

definition consResult :: "unit16 \<Rightarrow> (jsstring \<times> jsstring) option \<Rightarrow> (jsstring \<times> jsstring) option" where
  "consResult c r = (case r of None \<Rightarrow> None | Some (str, rest) \<Rightarrow> Some (c # str, rest))"

text \<open>
  The characters of a string literal after its opening quote, up to the closing quote:
  the string they denote and the text after the closing quote. A unit below space is a
  syntax error, as are an incomplete or unknown escape and a missing closing quote.
\<close>

fun parseChars :: "jsstring \<Rightarrow> (jsstring \<times> jsstring) option" where
  "parseChars [] = None"
| "parseChars (c # s) =
     (if c = 0x22 then Some ([], s)
      else if c = 0x5C then
        (case s of
           [] \<Rightarrow> None
         | e # s1 \<Rightarrow>
             if e = 0x75 then
               (case s1 of
                  h1 # h2 # h3 # h4 # s2 \<Rightarrow>
                    (case (hexValue h1, hexValue h2, hexValue h3, hexValue h4) of
                       (Some a, Some b, Some c', Some d) \<Rightarrow>
                         consResult (push_bit 12 a OR push_bit 8 b OR push_bit 4 c' OR d)
                           (parseChars s2)
                     | _ \<Rightarrow> None)
                | _ \<Rightarrow> None)
             else (case unescape e of None \<Rightarrow> None | Some u \<Rightarrow> consResult u (parseChars s1)))
      else if c < 0x20 then None
      else consResult c (parseChars s))"

text \<open>
  The host enumerates the properties of an object with the names that are array indices
  first, in ascending order, and the other names after them, in the order they were created
  in. A name is an array index when it is the decimal numeral, without a leading zero, of
  a number up to \<open>2^32 - 2\<close>.
\<close>

definition isDigit :: "unit16 \<Rightarrow> bool" where
  "isDigit c = (0x30 \<le> c \<and> c \<le> 0x39)"

definition digitsValue :: "jsstring \<Rightarrow> int" where
  "digitsValue s = foldl (\<lambda>n c. 10 * n + uint (c - 0x30)) 0 s"

definition arrayIndex :: "jsstring \<Rightarrow> int option" where
  "arrayIndex s =
     (if s \<noteq> [] \<and> list_all isDigit s \<and> (s = [0x30] \<or> hd s \<noteq> 0x30)
         \<and> digitsValue s \<le> 4294967294
      then Some (digitsValue s) else None)"

definition indexBelow :: "int \<Rightarrow> jsstring \<times> json \<Rightarrow> bool" where
  "indexBelow i m = (case arrayIndex (fst m) of None \<Rightarrow> False | Some j \<Rightarrow> j < i)"

text \<open>
  Defining a property on the object under construction: a name the object already has
  keeps its place and takes the new value; a new name that is an array index goes after
  the indices below it; any other new name is added at the end.
\<close>

definition defineProperty :: "(jsstring \<times> json) list \<Rightarrow> jsstring \<times> json \<Rightarrow> (jsstring \<times> json) list" where
  "defineProperty ms m =
     (if fst m \<in> fst ` set ms then map (\<lambda>m'. if fst m' = fst m then m else m') ms
      else
        (case arrayIndex (fst m) of
           None \<Rightarrow> ms @ [m]
         | Some i \<Rightarrow> takeWhile (indexBelow i) ms @ m # dropWhile (indexBelow i) ms))"

text \<open>
  The parser of values, arrays and objects. Its first argument bounds the depth of nested
  calls. The result \<open>None\<close> is a syntax error (or a value of a kind the document does
  not have: a number, \<open>true\<close>, \<open>false\<close>, \<open>null\<close>).
\<close>

fun parseValue :: "nat \<Rightarrow> jsstring \<Rightarrow> (json \<times> jsstring) option"
  and parseElements :: "nat \<Rightarrow> jsstring \<Rightarrow> (json list \<times> jsstring) option"
  and parseMembers :: "nat \<Rightarrow> jsstring \<Rightarrow> ((jsstring \<times> json) list \<times> jsstring) option"
where
  "parseValue 0 s = None"
| "parseValue (Suc n) s =
     (case skipWs s of
        [] \<Rightarrow> None
      | c # r \<Rightarrow>
          if c = 0x22 then
            (case parseChars r of None \<Rightarrow> None | Some (str, r1) \<Rightarrow> Some (JString str, r1))
          else if c = 0x5B then
            (case skipWs r of
               [] \<Rightarrow> None
             | c1 # r1 \<Rightarrow>
                 if c1 = 0x5D then Some (JArray [], r1)
                 else (case parseElements n (c1 # r1) of
                         None \<Rightarrow> None
                       | Some (vs, r2) \<Rightarrow> Some (JArray vs, r2)))
          else if c = 0x7B then
            (case skipWs r of
               [] \<Rightarrow> None
             | c1 # r1 \<Rightarrow>
                 if c1 = 0x7D then Some (JObject [], r1)
                 else (case parseMembers n (c1 # r1) of
                         None \<Rightarrow> None
                       | Some (ms, r2) \<Rightarrow> Some (JObject (foldl defineProperty [] ms), r2)))
          else None)"
| "parseElements 0 s = None"
| "parseElements (Suc n) s =
     (case parseValue n s of
        None \<Rightarrow> None
      | Some (v, r) \<Rightarrow>
          (case skipWs r of
             [] \<Rightarrow> None
           | c # r1 \<Rightarrow>
               if c = 0x2C then
                 (case parseElements n r1 of None \<Rightarrow> None | Some (vs, r2) \<Rightarrow> Some (v # vs, r2))
               else if c = 0x5D then Some ([v], r1)
               else None))"
| "parseMembers 0 s = None"
| "parseMembers (Suc n) s =
     (case skipWs s of
        [] \<Rightarrow> None
      | c # r \<Rightarrow>
          if c = 0x22 then
            (case parseChars r of
               None \<Rightarrow> None
             | Some (k, r1) \<Rightarrow>
                 (case skipWs r1 of
                    [] \<Rightarrow> None
                  | c1 # r2 \<Rightarrow>
                      if c1 = 0x3A then
                        (case parseValue n r2 of
                           None \<Rightarrow> None
                         | Some (v, r3) \<Rightarrow>
                             (case skipWs r3 of
                                [] \<Rightarrow> None
                              | c3 # r4 \<Rightarrow>
                                  if c3 = 0x2C then
                                    (case parseMembers n r4 of
                                       None \<Rightarrow> None
                                     | Some (ms, r5) \<Rightarrow> Some ((k, v) # ms, r5))
                                  else if c3 = 0x7D then Some ([(k, v)], r4)
                                  else None))
                      else None))
          else None)"

text \<open>
  \<open>JSON.parse(text)\<close>: one value, with nothing but white space after it. Of two
  nested calls of the parser at least one consumes a unit of the text, which gives the
  bound on the depth; \<open>callDepth_length\<close> below shows that it is enough for every
  text \<open>JSON.stringify\<close> writes.
\<close>

definition JSON_parse :: "jsstring \<Rightarrow> json option" where
  "JSON_parse text =
     (case parseValue (2 * length text + 2) text of
        None \<Rightarrow> None
      | Some (v, rest) \<Rightarrow> if skipWs rest = [] then Some v else None)"

text \<open>
  The values whose objects have no name twice and no name that is an array index: the
  host enumerates the properties of such an object in the order they were created in.
\<close>

fun plainNames :: "json \<Rightarrow> bool" where
  "plainNames (JString s) = True"
| "plainNames (JArray vs) = (\<forall>v\<in>set vs. plainNames v)"
| "plainNames (JObject ms) =
     (distinct (map fst ms) \<and> (\<forall>m\<in>set ms. arrayIndex (fst m) = None \<and> plainNames (snd m)))"

text \<open>A depth of calls that is enough for the parser to read the text of a value.\<close>

fun callDepth :: "json \<Rightarrow> nat" where
  "callDepth (JString s) = 1"
| "callDepth (JArray vs) = Suc (sum_list (map (\<lambda>v. Suc (callDepth v)) vs))"
| "callDepth (JObject ms) = Suc (sum_list (map (\<lambda>m. Suc (callDepth (snd m))) ms))"

subsection \<open>The exported object\<close>

text \<open>
  The objects of the document as values. The properties of an object are listed in the
  order the component creates them in: the order of the literals in \<open>basePersonalInfo\<close>,
  the factories and the initial skill block. A spread \<open>{ ...record, ...updates }\<close> copies
  the properties of the record in their order and an update of a property that exists
  keeps its place, so every record of the state has this order. No name is an array
  index, so this is also the order the host enumerates the properties in.
\<close>

definition personalValue :: "PersonalInfo \<Rightarrow> json" where
  "personalValue p =
     JObject [(js ''fullName'', JString (fullName p)), (js ''headline'', JString (headline p)),
       (js ''email'', JString (email p)), (js ''phone'', JString (phone p)),
       (js ''location'', JString (location p)), (js ''website'', JString (website p)),
       (js ''linkedin'', JString (linkedin p)), (js ''summary'', JString (summary p))]"

definition experienceValue :: "Experience \<Rightarrow> json" where
  "experienceValue exp =
     JObject [(js ''id'', JString (exp_id exp)), (js ''role'', JString (exp_role exp)),
       (js ''company'', JString (exp_company exp)), (js ''location'', JString (exp_location exp)),
       (js ''startDate'', JString (exp_startDate exp)), (js ''endDate'', JString (exp_endDate exp)),
       (js ''bullets'', JArray (map JString (exp_bullets exp)))]"

definition educationValue :: "Education \<Rightarrow> json" where
  "educationValue edu =
     JObject [(js ''id'', JString (edu_id edu)), (js ''school'', JString (edu_school edu)),
       (js ''degree'', JString (edu_degree edu)), (js ''startDate'', JString (edu_startDate edu)),
       (js ''endDate'', JString (edu_endDate edu)), (js ''details'', JString (edu_details edu)),
       (js ''location'', JString (edu_location edu))]"

definition projectValue :: "Project \<Rightarrow> json" where
  "projectValue project =
     JObject [(js ''id'', JString (proj_id project)), (js ''name'', JString (proj_name project)),
       (js ''description'', JString (proj_description project)),
       (js ''link'', JString (proj_link project)),
       (js ''highlights'', JArray (map JString (proj_highlights project)))]"

definition skillBlockValue :: "SkillBlock \<Rightarrow> json" where
  "skillBlockValue block =
     JObject [(js ''id'', JString (skill_id block)), (js ''label'', JString (skill_label block)),
       (js ''items'', JString (skill_items block))]"

text \<open>The object literal \<open>{ personal, experiences, educations, projects, skills }\<close>.\<close>

definition exportedValue :: "ResumeDocument \<Rightarrow> json" where
  "exportedValue d =
     JObject [(js ''personal'', personalValue (personal d)),
       (js ''experiences'', JArray (map experienceValue (experiences d))),
       (js ''educations'', JArray (map educationValue (educations d))),
       (js ''projects'', JArray (map projectValue (projects d))),
       (js ''skills'', JArray (map skillBlockValue (skills d)))]"

text \<open>
  \<open>exportAsJson\<close>. Without a \<open>window\<close> object it returns at once. Otherwise it
  serialises the object with an indentation of 2, wraps the text in a blob of type
  \<open>application/json\<close> and clicks a link to the blob whose \<open>download\<close> attribute is
  the file name; the model returns what the link offers.
\<close>

record Download =
  download :: jsstring
  blobType :: jsstring
  blobText :: jsstring

definition exportAsJson :: "bool \<Rightarrow> ResumeDocument \<Rightarrow> Download option" where
  "exportAsJson windowDefined d =
     (if \<not> windowDefined then None
      else
        let json = JSON_stringify (exportedValue d) 2
        in Some \<lparr>download = js ''resume-builder-export.json'',
                 blobType = js ''application/json'', blobText = json\<rparr>)"

text \<open>
  A blob made from a string holds its UTF-8 encoding, which keeps every code point but a
  surrogate that is not part of a pair. \<open>loneSurrogateFree\<close>: the string has none.
\<close>

fun loneSurrogateFree :: "jsstring \<Rightarrow> bool" where
  "loneSurrogateFree [] = True"
| "loneSurrogateFree [c] = (\<not> isLeadingSurrogate c \<and> \<not> isTrailingSurrogate c)"
| "loneSurrogateFree (c # d # s) =
     (if isLeadingSurrogate c \<and> isTrailingSurrogate d then loneSurrogateFree s
      else \<not> isLeadingSurrogate c \<and> \<not> isTrailingSurrogate c \<and> loneSurrogateFree (d # s))"

section \<open>Example documents\<close>

text \<open>
  The personal section of the specification's test scenario: name, headline, email and
  location filled in, everything else empty.
\<close>

definition adaPersonal :: PersonalInfo where
  "adaPersonal =
     basePersonalInfo\<lparr>fullName := js ''Ada'', headline := js ''Engineer'',
       email := js ''a@b.com'', location := js ''NY''\<rparr>"

text \<open>
  A document in which every item but the summary is satisfied, and the text of a bullets
  area with three lines, one of them blank.
\<close>

definition almostCompleteDocument :: ResumeDocument where
  "almostCompleteDocument =
     \<lparr>personal = adaPersonal,
      experiences = [(createExperience [])\<lparr>exp_bullets := [js ''a'', js ''b'', js ''c'']\<rparr>],
      educations = [(createEducation [])\<lparr>edu_degree := js ''NY''\<rparr>],
      projects = [],
      skills = [\<lparr>skill_id = [], skill_label = js ''Core'', skill_items = js ''Ada''\<rparr>]\<rparr>"

definition bulletsText :: jsstring where
  "bulletsText = js ''  a '' @ [0x0A] @ js '' '' @ [0x0A] @ js ''b''"

section \<open>Facts about strings\<close>

lemma unat_of_char: "unat (of_char c :: unit16) = of_char c"
proof -
  have lt: "(of_char c :: nat) < 2 ^ 16"
    by (rule less_trans [OF nat_of_char_less_256]) simp
  have "(of_char c :: unit16) = of_nat (of_char c)"
    by (simp add: of_nat_of_char)
  then have "unat (of_char c :: unit16) = unat (of_nat (of_char c :: nat) :: unit16)"
    by simp
  also have "\<dots> = of_char c"
    using lt by (simp add: unat_of_nat take_bit_nat_eq_self)
  finally show ?thesis .
qed

lemma of_char_unit16_eq: "(of_char a :: unit16) = of_char b \<longleftrightarrow> a = b"
proof
  assume "(of_char a :: unit16) = of_char b"
  then have "unat (of_char a :: unit16) = unat (of_char b :: unit16)" by simp
  then show "a = b" by (simp add: unat_of_char)
qed simp

lemma js_eq_iff: "js a = js b \<longleftrightarrow> a = b"
  unfolding js_def by (rule inj_map_eq_map) (simp add: inj_on_def of_char_unit16_eq)

lemma trim_Nil_iff: "trim s = [] \<longleftrightarrow> (\<forall>c\<in>set s. isWhiteSpace c)"
proof (cases "dropWhile isWhiteSpace s")
  case Nil
  then have "\<forall>c\<in>set s. isWhiteSpace c"
    by (simp only: dropWhile_eq_Nil_conv)
  moreover have "trim s = []"
    unfolding trim_def Nil by simp
  ultimately show ?thesis by simp
next
  case (Cons x xs)
  then have "\<not> isWhiteSpace x"
    using hd_dropWhile [of isWhiteSpace s] by simp
  moreover have "x \<in> set s"
    using Cons set_dropWhileD [of x isWhiteSpace s] by simp
  ultimately show ?thesis
    using Cons by (auto simp: trim_def dropWhile_eq_Nil_conv)
qed

lemma trim_empty [simp]: "trim [] = []"
  by (simp add: trim_def)

lemma trim_trimmed:
  assumes "b \<noteq> []" "\<not> isWhiteSpace (hd b)" "\<not> isWhiteSpace (last b)"
  shows "trim b = b"
proof -
  have "dropWhile isWhiteSpace b = b"
    using assms(2) by (simp add: dropWhile_eq_self_iff)
  moreover have "dropWhile isWhiteSpace (rev b) = rev b"
    using assms(1,3) by (simp add: dropWhile_eq_self_iff hd_rev)
  ultimately show ?thesis by (simp add: trim_def)
qed

lemma last_dropWhile: "dropWhile P xs \<noteq> [] \<Longrightarrow> last (dropWhile P xs) = last xs"
  by (metis last_appendR takeWhile_dropWhile_id)

lemma trim_ends:
  assumes "trim s \<noteq> []"
  shows "\<not> isWhiteSpace (hd (trim s)) \<and> \<not> isWhiteSpace (last (trim s))"
proof -
  define u where "u = dropWhile isWhiteSpace s"
  define v where "v = dropWhile isWhiteSpace (rev u)"
  have t: "trim s = rev v" by (simp add: trim_def u_def v_def)
  with assms have v: "v \<noteq> []" by simp
  then have u: "u \<noteq> []" by (auto simp: v_def)
  have "\<not> isWhiteSpace (hd v)"
    using v unfolding v_def by (rule hd_dropWhile)
  moreover have "last v = last (rev u)"
    using v unfolding v_def by (rule last_dropWhile)
  then have "last v = hd u" using u by (simp add: last_rev)
  moreover have "\<not> isWhiteSpace (hd u)"
    using u unfolding u_def by (rule hd_dropWhile)
  ultimately show ?thesis using v by (simp add: t hd_rev last_rev)
qed

lemma trim_idem: "trim (trim s) = trim s"
proof (cases "trim s = []")
  case True
  then show ?thesis by simp
next
  case False
  then show ?thesis using trim_ends [OF False] by (intro trim_trimmed) simp_all
qed

lemma js_literal_clean:
  assumes "s \<noteq> []" "\<not> isWhiteSpace (of_char (hd s))" "\<not> isWhiteSpace (of_char (last s))"
  shows "js s \<noteq> [] \<and> trim (js s) = js s"
proof -
  have "js s \<noteq> []" using assms(1) by (simp add: js_def)
  moreover have "hd (js s) = of_char (hd s)" "last (js s) = of_char (last s)"
    using assms(1) by (simp_all add: js_def hd_map last_map)
  ultimately show ?thesis using assms(2,3) by (simp add: trim_trimmed)
qed

lemma ada_nonblank:
  "trim (js ''Ada'') \<noteq> []" "trim (js ''Engineer'') \<noteq> []"
  "trim (js ''a@b.com'') \<noteq> []" "trim (js ''NY'') \<noteq> []"
  by (simp_all add: trim_def js_def isWhiteSpace_def)

section \<open>The checklist: items, order and predicates\<close>

text \<open>
  C1. For every document the checklist has exactly five items, with the identifiers
  contact, summary, experience, education, skills in this order; contact, experience and
  skills are required, summary and education are not. Their \<open>satisfied\<close> values are,
  in the same order: the full name, headline, email and location are all
  non-blank after trimming; the trimmed summary is longer than 60; some experience has 3 or
  more bullets; some education has a non-blank trimmed degree or non-blank trimmed details;
  some skill block has non-blank trimmed items. (By \<open>trim_Nil_iff\<close>, a string is
  non-blank after trimming exactly when it holds a unit that is not white space.)
\<close>

theorem checklist_items:
  "map item_id (checklist d) =
     [js ''contact'', js ''summary'', js ''experience'', js ''education'', js ''skills'']
   \<and> length (checklist d) = 5
   \<and> map required (checklist d) = [True, False, True, False, True]
   \<and> map satisfied (checklist d) =
     [trim (fullName (personal d)) \<noteq> [] \<and> trim (headline (personal d)) \<noteq> []
        \<and> trim (email (personal d)) \<noteq> [] \<and> trim (location (personal d)) \<noteq> [],
      60 < length (trim (summary (personal d))),
      (\<exists>e\<in>set (experiences d). 3 \<le> length (exp_bullets e)),
      (\<exists>e\<in>set (educations d). trim (edu_degree e) \<noteq> [] \<or> trim (edu_details e) \<noteq> []),
      (\<exists>b\<in>set (skills d). trim (skill_items b) \<noteq> [])]"
  by (simp add: checklist_def list_ex_iff)

theorem checklist_items_witness:
  "map satisfied (checklist ((initialDocument [] [] [] [])\<lparr>personal := adaPersonal\<rparr>))
     = [True, False, False, False, False]
   \<and> map item_id (checklist ((initialDocument [] [] [] [])\<lparr>personal := adaPersonal\<rparr>))
     = [js ''contact'', js ''summary'', js ''experience'', js ''education'', js ''skills'']"
  using checklist_items [of "(initialDocument [] [] [] [])\<lparr>personal := adaPersonal\<rparr>"]
  by (simp add: initialDocument_def adaPersonal_def basePersonalInfo_def
      createExperience_def createEducation_def ada_nonblank)

section \<open>The summary of the checklist panel\<close>

text \<open>
  C2. For every list of items the panel is given, the count it shows is the number of
  positions whose item is satisfied, and \<open>complete\<close> holds exactly when every item is
  satisfied, which is exactly when the count equals the length of the list; so an item that
  is not required and not satisfied makes \<open>complete\<close> false. The list the component
  passes is the checklist of the document, whose length is 5.
\<close>

theorem checklist_summary:
  "completedCount items = card {k. k < length items \<and> satisfied (items ! k)}
   \<and> length (checklist d) = 5
   \<and> (complete items \<longleftrightarrow> (\<forall>item\<in>set items. satisfied item))
   \<and> (complete items \<longleftrightarrow> completedCount items = length items)
   \<and> (\<forall>item\<in>set items. \<not> required item \<and> \<not> satisfied item \<longrightarrow> \<not> complete items)"
proof -
  have c: "complete items \<longleftrightarrow> (\<forall>item\<in>set items. satisfied item)"
    by (simp add: complete_def list_all_iff)
  have "completedCount items = length items \<longleftrightarrow> filter satisfied items = items"
    unfolding completedCount_def
    by (metis length_filter_less less_irrefl filter_True)
  then have e: "complete items \<longleftrightarrow> completedCount items = length items"
    by (simp add: c filter_id_conv)
  show ?thesis
    using c e by (auto simp: completedCount_def length_filter_conv_card checklist_def)
qed

theorem checklist_summary_witness:
  "map required (checklist almostCompleteDocument) = [True, False, True, False, True]
   \<and> map satisfied (checklist almostCompleteDocument) = [True, False, True, True, True]
   \<and> completedCount (checklist almostCompleteDocument) = 4
   \<and> length (checklist almostCompleteDocument) = 5
   \<and> \<not> complete (checklist almostCompleteDocument)"
proof -
  note summary_facts =
    checklist_summary [of "checklist almostCompleteDocument" almostCompleteDocument]
  have s: "map satisfied (checklist almostCompleteDocument) = [True, False, True, True, True]"
    by (simp add: checklist_def almostCompleteDocument_def adaPersonal_def basePersonalInfo_def
        createExperience_def createEducation_def ada_nonblank)
  have r: "map required (checklist almostCompleteDocument) = [True, False, True, False, True]"
    by (simp add: checklist_def)
  have n: "completedCount (checklist almostCompleteDocument) = 4"
    using s by (simp add: completedCount_def checklist_def)
  have len: "length (checklist almostCompleteDocument) = 5"
    using summary_facts by (elim conjE)
  have "complete (checklist almostCompleteDocument)
      \<longleftrightarrow> completedCount (checklist almostCompleteDocument) = length (checklist almostCompleteDocument)"
    using summary_facts by (elim conjE)
  then have "\<not> complete (checklist almostCompleteDocument)"
    by (simp only: n len)
  with s r n len show ?thesis by (intro conjI)
qed

section \<open>The specification's test scenario\<close>

text \<open>
  C7. Take a document whose personal section is Ada's (name, headline, email and location
  filled in, the rest empty), with exactly one experience, which has no bullets, and with
  nothing filled in for education and skills (whether these lists are empty or hold empty
  entries). Its checklist has contact satisfied, experience not satisfied, and is not
  complete. Setting the bullets of that experience, through the change handler, to any
  list of 3 bullets makes experience satisfied and leaves the other four values as they
  were.
\<close>

theorem ada_checklist:
  assumes "personal d = adaPersonal"
    and "experiences d = [e]"
    and "exp_bullets e = []"
    and "\<forall>edu\<in>set (educations d). edu_degree edu = [] \<and> edu_details edu = []"
    and "\<forall>block\<in>set (skills d). skill_items block = []"
    and "length bs = 3"
  shows "map satisfied (checklist d) = [True, False, False, False, False]
    \<and> \<not> complete (checklist d)
    \<and> map satisfied (checklist (d\<lparr>experiences :=
          handleExperienceChange (exp_id e) (noExperienceUpdates\<lparr>new_exp_bullets := Some bs\<rparr>)
            (experiences d)\<rparr>))
        = [True, False, True, False, False]"
proof -
  have p: "trim (fullName (personal d)) \<noteq> []" "trim (headline (personal d)) \<noteq> []"
    "trim (email (personal d)) \<noteq> []" "trim (location (personal d)) \<noteq> []"
    "trim (summary (personal d)) = []"
    using assms(1) by (simp_all add: adaPersonal_def basePersonalInfo_def ada_nonblank)
  have edu: "\<not> list_ex (\<lambda>edu. 0 < length (trim (edu_degree edu)) \<or> 0 < length (trim (edu_details edu)))
      (educations d)"
    using assms(4) by (simp add: list_ex_iff)
  have sk: "\<not> list_ex (\<lambda>block. 0 < length (trim (skill_items block))) (skills d)"
    using assms(5) by (simp add: list_ex_iff)
  have before: "map satisfied (checklist d) = [True, False, False, False, False]"
    using p edu sk assms(2,3) by (simp add: checklist_def)
  then have "\<not> complete (checklist d)"
    by (simp add: complete_def list_all_iff checklist_def)
  moreover have "map satisfied (checklist (d\<lparr>experiences :=
          handleExperienceChange (exp_id e) (noExperienceUpdates\<lparr>new_exp_bullets := Some bs\<rparr>)
            (experiences d)\<rparr>))
        = [True, False, True, False, False]"
    using p edu sk assms(2,6)
    by (simp add: checklist_def handleExperienceChange_def spreadExperience_def
        noExperienceUpdates_def overwrite_def)
  ultimately show ?thesis using before by simp
qed

theorem ada_checklist_witness:
  "map satisfied (checklist ((initialDocument [] [] [] [])\<lparr>personal := adaPersonal\<rparr>))
     = [True, False, False, False, False]
   \<and> \<not> complete (checklist ((initialDocument [] [] [] [])\<lparr>personal := adaPersonal\<rparr>))
   \<and> map satisfied (checklist
        ((initialDocument [] [] [] [])\<lparr>personal := adaPersonal,
           experiences := handleExperienceChange []
              (noExperienceUpdates\<lparr>new_exp_bullets := Some [js ''a'', js ''b'', js ''c'']\<rparr>)
              [createExperience []]\<rparr>))
     = [True, False, True, False, False]"
  using ada_checklist [of "(initialDocument [] [] [] [])\<lparr>personal := adaPersonal\<rparr>"
      "createExperience []" "[js ''a'', js ''b'', js ''c'']"]
  by (simp add: initialDocument_def createExperience_def createEducation_def)

section \<open>The suggestion engine: de-duplication and order\<close>

text \<open>The set built from a list lists the first occurrences.\<close>

lemma set_dedupFirst: "set (dedupFirst xs) = set xs"
  by (induction xs rule: dedupFirst.induct) auto

lemma distinct_dedupFirst: "distinct (dedupFirst xs)"
  by (induction xs rule: dedupFirst.induct) (auto simp: set_dedupFirst)

lemma dedupFirst_distinct: "distinct xs \<Longrightarrow> dedupFirst xs = xs"
proof (induction xs)
  case Nil
  then show ?case by simp
next
  case (Cons x xs)
  then have "filter (\<lambda>y. y \<noteq> x) xs = xs"
    by (auto simp: filter_id_conv)
  with Cons show ?case by simp
qed

lemma foldl_set_add:
  "foldl set_add acc xs = acc @ dedupFirst (filter (\<lambda>x. x \<notin> set acc) xs)"
proof (induction xs arbitrary: acc)
  case Nil
  then show ?case by simp
next
  case (Cons x xs)
  show ?case
  proof (cases "x \<in> set acc")
    case True
    then have "set_add acc x = acc" by (simp add: set_add_def)
    with True show ?thesis by (simp add: Cons.IH)
  next
    case False
    have "filter (\<lambda>y. y \<notin> set (acc @ [x])) xs
        = filter (\<lambda>y. y \<noteq> x) (filter (\<lambda>y. y \<notin> set acc) xs)"
      by (auto intro: filter_cong)
    moreover have "set_add acc x = acc @ [x]"
      using False by (simp add: set_add_def)
    ultimately show ?thesis using False by (simp add: Cons.IH)
  qed
qed

lemma newSet_dedupFirst: "newSet xs = dedupFirst xs"
  by (simp add: newSet_def foldl_set_add)

text \<open>The fifteen bullets of the library and the fallback group are pairwise different.\<close>

lemma distinct_allBullets: "distinct (concat (map bullets roleSuggestionLibrary) @ genericBullets)"
  by (simp add: roleSuggestionLibrary_def softwareBullets_def productBullets_def
      designBullets_def dataBullets_def genericBullets_def js_eq_iff)

lemma distinct_concat_filter:
  "distinct (concat (map f xs) @ ys) \<Longrightarrow> distinct (concat (map f (filter P xs)) @ ys)"
  by (induction xs) auto

text \<open>So the set never drops a bullet: the result is the matched groups and the fallback.\<close>

lemma getSuggestedBullets_matches:
  "getSuggestedBullets role s =
     concat (map bullets
       (filter (\<lambda>entry. rx_test (pattern entry) role \<or> rx_test (pattern entry) s)
          roleSuggestionLibrary)) @ genericBullets"
  unfolding getSuggestedBullets_def Let_def newSet_dedupFirst
  by (rule dedupFirst_distinct) (rule distinct_concat_filter [OF distinct_allBullets])

lemma no_match_empty:
  "\<forall>entry\<in>set roleSuggestionLibrary. \<not> rx_test (pattern entry) []"
  by (simp add: roleSuggestionLibrary_def softwarePattern_def productPattern_def
      designPattern_def dataPattern_def lits_def)

lemma senior_software_engineer_matches:
  "rx_test softwarePattern (js ''Senior Software Engineer'')"
  "\<not> rx_test productPattern (js ''Senior Software Engineer'')"
  "\<not> rx_test designPattern (js ''Senior Software Engineer'')"
  "\<not> rx_test dataPattern (js ''Senior Software Engineer'')"
  by code_simp+

lemma ux_designer_matches:
  "\<not> rx_test softwarePattern (js ''UX Designer'')"
  "\<not> rx_test productPattern (js ''UX Designer'')"
  "rx_test designPattern (js ''UX Designer'')"
  "\<not> rx_test dataPattern (js ''UX Designer'')"
  "\<not> rx_test softwarePattern (js ''I love DATA'')"
  "\<not> rx_test productPattern (js ''I love DATA'')"
  "\<not> rx_test designPattern (js ''I love DATA'')"
  "rx_test dataPattern (js ''I love DATA'')"
  by code_simp+

text \<open>
  C3. For every role text and summary text, the suggested bullets are the bullet groups
  of the library entries whose pattern matches the role text or the summary text, in
  library order, followed by the fallback group, with every later occurrence of a string
  removed; the result holds no string twice.
\<close>

theorem suggestions_deduplicated:
  "getSuggestedBullets role s =
     dedupFirst
       (concat (map bullets
          (filter (\<lambda>entry. rx_test (pattern entry) role \<or> rx_test (pattern entry) s)
             roleSuggestionLibrary))
        @ genericBullets)
   \<and> distinct (getSuggestedBullets role s)"
  by (simp add: getSuggestedBullets_def newSet_dedupFirst distinct_dedupFirst)

theorem suggestions_deduplicated_witness:
  "getSuggestedBullets (js ''UX Designer'') (js ''I love DATA'')
     = designBullets @ dataBullets @ genericBullets
   \<and> distinct (getSuggestedBullets (js ''UX Designer'') (js ''I love DATA''))"
proof -
  note base = suggestions_deduplicated [of "js ''UX Designer''" "js ''I love DATA''"]
  have "dedupFirst (designBullets @ dataBullets @ genericBullets)
      = designBullets @ dataBullets @ genericBullets"
    by (rule dedupFirst_distinct)
      (simp add: designBullets_def dataBullets_def genericBullets_def js_eq_iff)
  with base [THEN conjunct1]
  have "getSuggestedBullets (js ''UX Designer'') (js ''I love DATA'')
     = designBullets @ dataBullets @ genericBullets"
    by (simp add: roleSuggestionLibrary_def ux_designer_matches)
  then show ?thesis
    using base [THEN conjunct2] by (intro conjI)
qed

text \<open>
  C4. For the empty role text and the empty summary text the suggested bullets are exactly
  the three fallback bullets, in their order.
\<close>

theorem suggestions_empty_inputs:
  "getSuggestedBullets [] [] = genericBullets \<and> length genericBullets = 3"
proof -
  have "filter (\<lambda>entry. rx_test (pattern entry) [] \<or> rx_test (pattern entry) [])
          roleSuggestionLibrary = []"
    using no_match_empty by (simp add: filter_empty_conv)
  then show ?thesis
    by (simp add: getSuggestedBullets_matches genericBullets_def)
qed

text \<open>
  C5. For the role text "Senior Software Engineer" and the empty summary text the
  suggested bullets are the three bullets of the software entry, in their order, followed
  by the three fallback bullets, in their order.
\<close>

theorem suggestions_senior_software_engineer:
  "getSuggestedBullets (js ''Senior Software Engineer'') [] = softwareBullets @ genericBullets
   \<and> bullets (roleSuggestionLibrary ! 0) = softwareBullets
   \<and> length softwareBullets = 3 \<and> length genericBullets = 3"
proof -
  have "\<not> rx_test softwarePattern []" "\<not> rx_test productPattern []"
    "\<not> rx_test designPattern []" "\<not> rx_test dataPattern []"
    using no_match_empty by (simp_all add: roleSuggestionLibrary_def)
  then show ?thesis
    by (simp add: getSuggestedBullets_matches roleSuggestionLibrary_def
        senior_software_engineer_matches softwareBullets_def genericBullets_def)
qed

text \<open>
  C6. The function is total: for every role text and summary text (the empty ones
  included) it returns a list, which ends with the three fallback bullets; so the result
  holds every fallback bullet, has at least three elements and is never empty.
\<close>

theorem suggestions_total:
  "(\<exists>matched. getSuggestedBullets role s = matched @ genericBullets)
   \<and> set genericBullets \<subseteq> set (getSuggestedBullets role s)
   \<and> length genericBullets = 3
   \<and> 3 \<le> length (getSuggestedBullets role s)
   \<and> getSuggestedBullets role s \<noteq> []"
proof -
  have "length genericBullets = 3"
    by (simp add: genericBullets_def)
  then show ?thesis
    by (auto simp: getSuggestedBullets_matches)
qed

section \<open>The change handlers\<close>

text \<open>Two facts about mapping over a list with a test on a key.\<close>

lemma map_if_unchanged: "i \<notin> f ` set xs \<Longrightarrow> map (\<lambda>x. if f x = i then g x else x) xs = xs"
  by (induction xs) auto

lemma map_if_key: "(\<And>x. f (g x) = f x) \<Longrightarrow> map f (map (\<lambda>x. if f x = i then g x else x) xs) = map f xs"
  by (induction xs) auto

text \<open>
  C9. For each of the four lists (experiences, educations, projects, skill blocks), every
  identifier and every update object: the handler keeps the length and the order of the
  list; it replaces every record whose identifier is the given one by the spread of the
  record and the update, and leaves every other record as it is; in the spread, a field
  the update mentions takes the given value and a field it does not mention keeps its
  value (\<open>overwrite\<close>); if no record has the given identifier the list is unchanged.
  An update that does not mention the identifier leaves the identifiers of the list as
  they are, and no update the form builds mentions it.
\<close>

theorem change_handlers_frame:
  "(length (handleExperienceChange i eu exps) = length exps
    \<and> (\<forall>k<length exps. handleExperienceChange i eu exps ! k =
          (if exp_id (exps ! k) = i then spreadExperience (exps ! k) eu else exps ! k))
    \<and> (new_exp_id eu = None \<longrightarrow> map exp_id (handleExperienceChange i eu exps) = map exp_id exps)
    \<and> (i \<notin> exp_id ` set exps \<longrightarrow> handleExperienceChange i eu exps = exps)
    \<and> exp_id (spreadExperience exp eu) = overwrite (exp_id exp) (new_exp_id eu)
    \<and> exp_role (spreadExperience exp eu) = overwrite (exp_role exp) (new_exp_role eu)
    \<and> exp_company (spreadExperience exp eu) = overwrite (exp_company exp) (new_exp_company eu)
    \<and> exp_location (spreadExperience exp eu) = overwrite (exp_location exp) (new_exp_location eu)
    \<and> exp_startDate (spreadExperience exp eu) = overwrite (exp_startDate exp) (new_exp_startDate eu)
    \<and> exp_endDate (spreadExperience exp eu) = overwrite (exp_endDate exp) (new_exp_endDate eu)
    \<and> exp_bullets (spreadExperience exp eu) = overwrite (exp_bullets exp) (new_exp_bullets eu))
   \<and> (length (handleEducationChange i du edus) = length edus
    \<and> (\<forall>k<length edus. handleEducationChange i du edus ! k =
          (if edu_id (edus ! k) = i then spreadEducation (edus ! k) du else edus ! k))
    \<and> (new_edu_id du = None \<longrightarrow> map edu_id (handleEducationChange i du edus) = map edu_id edus)
    \<and> (i \<notin> edu_id ` set edus \<longrightarrow> handleEducationChange i du edus = edus)
    \<and> edu_id (spreadEducation edu du) = overwrite (edu_id edu) (new_edu_id du)
    \<and> edu_school (spreadEducation edu du) = overwrite (edu_school edu) (new_edu_school du)
    \<and> edu_degree (spreadEducation edu du) = overwrite (edu_degree edu) (new_edu_degree du)
    \<and> edu_startDate (spreadEducation edu du) = overwrite (edu_startDate edu) (new_edu_startDate du)
    \<and> edu_endDate (spreadEducation edu du) = overwrite (edu_endDate edu) (new_edu_endDate du)
    \<and> edu_details (spreadEducation edu du) = overwrite (edu_details edu) (new_edu_details du)
    \<and> edu_location (spreadEducation edu du) = overwrite (edu_location edu) (new_edu_location du))
   \<and> (length (handleProjectChange i pu projs) = length projs
    \<and> (\<forall>k<length projs. handleProjectChange i pu projs ! k =
          (if proj_id (projs ! k) = i then spreadProject (projs ! k) pu else projs ! k))
    \<and> (new_proj_id pu = None \<longrightarrow> map proj_id (handleProjectChange i pu projs) = map proj_id projs)
    \<and> (i \<notin> proj_id ` set projs \<longrightarrow> handleProjectChange i pu projs = projs)
    \<and> proj_id (spreadProject project pu) = overwrite (proj_id project) (new_proj_id pu)
    \<and> proj_name (spreadProject project pu) = overwrite (proj_name project) (new_proj_name pu)
    \<and> proj_description (spreadProject project pu)
        = overwrite (proj_description project) (new_proj_description pu)
    \<and> proj_link (spreadProject project pu) = overwrite (proj_link project) (new_proj_link pu)
    \<and> proj_highlights (spreadProject project pu)
        = overwrite (proj_highlights project) (new_proj_highlights pu))
   \<and> (length (handleSkillChange i su blocks) = length blocks
    \<and> (\<forall>k<length blocks. handleSkillChange i su blocks ! k =
          (if skill_id (blocks ! k) = i then spreadSkillBlock (blocks ! k) su else blocks ! k))
    \<and> (new_skill_id su = None \<longrightarrow> map skill_id (handleSkillChange i su blocks) = map skill_id blocks)
    \<and> (i \<notin> skill_id ` set blocks \<longrightarrow> handleSkillChange i su blocks = blocks)
    \<and> skill_id (spreadSkillBlock block su) = overwrite (skill_id block) (new_skill_id su)
    \<and> skill_label (spreadSkillBlock block su) = overwrite (skill_label block) (new_skill_label su)
    \<and> skill_items (spreadSkillBlock block su) = overwrite (skill_items block) (new_skill_items su))
   \<and> overwrite (old :: jsstring) None = old \<and> overwrite old (Some v) = v
   \<and> overwrite (olds :: jsstring list) None = olds \<and> overwrite olds (Some vs) = vs
   \<and> new_exp_id (experienceFieldUpdate ef v) = None
   \<and> new_exp_id (noExperienceUpdates\<lparr>new_exp_bullets := Some vs\<rparr>) = None
   \<and> new_edu_id (educationFieldUpdate df v) = None
   \<and> new_proj_id (projectFieldUpdate pf v) = None
   \<and> new_proj_id (noProjectUpdates\<lparr>new_proj_highlights := Some vs\<rparr>) = None
   \<and> new_skill_id (skillFieldUpdate sf v) = None"
proof -
  have form: "new_exp_id (experienceFieldUpdate ef v) = None"
    "new_exp_id (noExperienceUpdates\<lparr>new_exp_bullets := Some vs\<rparr>) = None"
    "new_edu_id (educationFieldUpdate df v) = None"
    "new_proj_id (projectFieldUpdate pf v) = None"
    "new_proj_id (noProjectUpdates\<lparr>new_proj_highlights := Some vs\<rparr>) = None"
    "new_skill_id (skillFieldUpdate sf v) = None"
    by (cases ef, simp_all add: noExperienceUpdates_def)
      (cases df, simp_all add: noEducationUpdates_def,
       cases pf, simp_all add: noProjectUpdates_def,
       cases sf, simp_all add: noSkillBlockUpdates_def)
  have e: "new_exp_id eu = None \<longrightarrow> map exp_id (handleExperienceChange i eu exps) = map exp_id exps"
    unfolding handleExperienceChange_def
    by (auto intro!: map_if_key simp: spreadExperience_def overwrite_def)
  have d: "new_edu_id du = None \<longrightarrow> map edu_id (handleEducationChange i du edus) = map edu_id edus"
    unfolding handleEducationChange_def
    by (auto intro!: map_if_key simp: spreadEducation_def overwrite_def)
  have p: "new_proj_id pu = None \<longrightarrow> map proj_id (handleProjectChange i pu projs) = map proj_id projs"
    unfolding handleProjectChange_def
    by (auto intro!: map_if_key simp: spreadProject_def overwrite_def)
  have s: "new_skill_id su = None \<longrightarrow> map skill_id (handleSkillChange i su blocks) = map skill_id blocks"
    unfolding handleSkillChange_def
    by (auto intro!: map_if_key simp: spreadSkillBlock_def overwrite_def)
  have e2: "i \<notin> exp_id ` set exps \<longrightarrow> handleExperienceChange i eu exps = exps"
    unfolding handleExperienceChange_def by (auto intro: map_if_unchanged)
  have d2: "i \<notin> edu_id ` set edus \<longrightarrow> handleEducationChange i du edus = edus"
    unfolding handleEducationChange_def by (auto intro: map_if_unchanged)
  have p2: "i \<notin> proj_id ` set projs \<longrightarrow> handleProjectChange i pu projs = projs"
    unfolding handleProjectChange_def by (auto intro: map_if_unchanged)
  have s2: "i \<notin> skill_id ` set blocks \<longrightarrow> handleSkillChange i su blocks = blocks"
    unfolding handleSkillChange_def by (auto intro: map_if_unchanged)
  have e3: "length (handleExperienceChange i eu exps) = length exps
    \<and> (\<forall>k<length exps. handleExperienceChange i eu exps ! k =
          (if exp_id (exps ! k) = i then spreadExperience (exps ! k) eu else exps ! k))"
    by (simp add: handleExperienceChange_def)
  have d3: "length (handleEducationChange i du edus) = length edus
    \<and> (\<forall>k<length edus. handleEducationChange i du edus ! k =
          (if edu_id (edus ! k) = i then spreadEducation (edus ! k) du else edus ! k))"
    by (simp add: handleEducationChange_def)
  have p3: "length (handleProjectChange i pu projs) = length projs
    \<and> (\<forall>k<length projs. handleProjectChange i pu projs ! k =
          (if proj_id (projs ! k) = i then spreadProject (projs ! k) pu else projs ! k))"
    by (simp add: handleProjectChange_def)
  have s3: "length (handleSkillChange i su blocks) = length blocks
    \<and> (\<forall>k<length blocks. handleSkillChange i su blocks ! k =
          (if skill_id (blocks ! k) = i then spreadSkillBlock (blocks ! k) su else blocks ! k))"
    by (simp add: handleSkillChange_def)
  show ?thesis
    using e d p s e2 d2 p2 s2 e3 d3 p3 s3 form
    by (simp add: spreadExperience_def spreadEducation_def spreadProject_def
        spreadSkillBlock_def overwrite_def)
qed

theorem change_handlers_frame_witness:
  "handleExperienceChange (js ''a'') (noExperienceUpdates\<lparr>new_exp_role := Some (js ''Dev'')\<rparr>)
       [createExperience (js ''a''), createExperience (js ''b'')]
     = [(createExperience (js ''a''))\<lparr>exp_role := js ''Dev''\<rparr>, createExperience (js ''b'')]
   \<and> map exp_id (handleExperienceChange (js ''a'')
         (noExperienceUpdates\<lparr>new_exp_role := Some (js ''Dev'')\<rparr>)
         [createExperience (js ''a''), createExperience (js ''b'')])
     = [js ''a'', js ''b'']
   \<and> handleExperienceChange (js ''c'') (noExperienceUpdates\<lparr>new_exp_role := Some (js ''Dev'')\<rparr>)
       [createExperience (js ''a''), createExperience (js ''b'')]
     = [createExperience (js ''a''), createExperience (js ''b'')]
   \<and> handleSkillChange (js ''a'') (noSkillBlockUpdates\<lparr>new_skill_items := Some (js ''SQL'')\<rparr>)
       [createSkillBlock (js ''a''), createSkillBlock (js ''b'')]
     = [(createSkillBlock (js ''a''))\<lparr>skill_items := js ''SQL''\<rparr>, createSkillBlock (js ''b'')]"
proof -
  note frame = change_handlers_frame
    [of "js ''a''" "noExperienceUpdates\<lparr>new_exp_role := Some (js ''Dev'')\<rparr>"
        "[createExperience (js ''a''), createExperience (js ''b'')]" "createExperience (js ''a'')"
        noEducationUpdates "[]" "createEducation []" noProjectUpdates "[]" "createProject []"
        "noSkillBlockUpdates\<lparr>new_skill_items := Some (js ''SQL'')\<rparr>"
        "[createSkillBlock (js ''a''), createSkillBlock (js ''b'')]" "createSkillBlock (js ''a'')"
        "[]" "[]" "[]" "[]"]
  have ne: "js ''b'' \<noteq> js ''a''" "js ''c'' \<noteq> js ''a''" "js ''c'' \<noteq> js ''b''"
    by (simp_all add: js_eq_iff)
  have hyp: "new_exp_id (noExperienceUpdates\<lparr>new_exp_role := Some (js ''Dev'')\<rparr>) = None"
    by (simp add: noExperienceUpdates_def)
  have ids: "map exp_id (handleExperienceChange (js ''a'')
         (noExperienceUpdates\<lparr>new_exp_role := Some (js ''Dev'')\<rparr>)
         [createExperience (js ''a''), createExperience (js ''b'')])
     = [js ''a'', js ''b'']"
    using frame hyp by (simp add: createExperience_def)
  have upd: "handleExperienceChange (js ''a'') (noExperienceUpdates\<lparr>new_exp_role := Some (js ''Dev'')\<rparr>)
       [createExperience (js ''a''), createExperience (js ''b'')]
     = [(createExperience (js ''a''))\<lparr>exp_role := js ''Dev''\<rparr>, createExperience (js ''b'')]"
    using ne by (simp add: handleExperienceChange_def spreadExperience_def overwrite_def
        noExperienceUpdates_def createExperience_def)
  have none: "handleExperienceChange (js ''c'') (noExperienceUpdates\<lparr>new_exp_role := Some (js ''Dev'')\<rparr>)
       [createExperience (js ''a''), createExperience (js ''b'')]
     = [createExperience (js ''a''), createExperience (js ''b'')]"
    using ne by (simp add: handleExperienceChange_def createExperience_def)
  have sk: "handleSkillChange (js ''a'') (noSkillBlockUpdates\<lparr>new_skill_items := Some (js ''SQL'')\<rparr>)
       [createSkillBlock (js ''a''), createSkillBlock (js ''b'')]
     = [(createSkillBlock (js ''a''))\<lparr>skill_items := js ''SQL''\<rparr>, createSkillBlock (js ''b'')]"
    using ne by (simp add: handleSkillChange_def spreadSkillBlock_def overwrite_def
        noSkillBlockUpdates_def createSkillBlock_def)
  from upd ids none sk show ?thesis by (intro conjI)
qed

section \<open>The bullets an experience can hold\<close>

text \<open>The two sources of bullets give strings that are non-empty and trimmed.\<close>

lemma linesOfTextArea_clean:
  "b \<in> set (linesOfTextArea v) \<Longrightarrow> b \<noteq> [] \<and> trim b = b"
  by (auto simp: linesOfTextArea_def trim_idem)

lemma library_clean:
  "\<forall>b\<in>set (concat (map bullets roleSuggestionLibrary) @ genericBullets). b \<noteq> [] \<and> trim b = b"
  by (simp add: roleSuggestionLibrary_def softwareBullets_def productBullets_def
      designBullets_def dataBullets_def genericBullets_def js_literal_clean isWhiteSpace_def)

lemma set_getSuggestedBullets:
  "set (getSuggestedBullets role s) \<subseteq> set (concat (map bullets roleSuggestionLibrary) @ genericBullets)"
  by (auto simp: getSuggestedBullets_def newSet_dedupFirst set_dedupFirst)

lemma getSuggestedBullets_clean:
  assumes "b \<in> set (getSuggestedBullets role s)"
  shows "b \<noteq> [] \<and> trim b = b"
proof -
  from assms set_getSuggestedBullets [of role s]
  have "b \<in> set (concat (map bullets roleSuggestionLibrary) @ genericBullets)"
    by (rule subsetD [rotated])
  with library_clean show ?thesis by (rule bspec)
qed

text \<open>The change handler keeps a property of all bullets that the new bullets have.\<close>

lemma handleExperienceChange_bullets:
  assumes "\<forall>exp\<in>set prev. \<forall>b\<in>set (exp_bullets exp). P b"
    and "\<forall>bs. new_exp_bullets updates = Some bs \<longrightarrow> (\<forall>b\<in>set bs. P b)"
  shows "\<forall>exp\<in>set (handleExperienceChange i updates prev). \<forall>b\<in>set (exp_bullets exp). P b"
  using assms
  by (cases "new_exp_bullets updates")
    (auto simp: handleExperienceChange_def spreadExperience_def overwrite_def)

lemma experienceFieldUpdate_bullets: "new_exp_bullets (experienceFieldUpdate f v) = None"
  by (cases f) (simp_all add: noExperienceUpdates_def)

lemma rendered_Some: "rendered xs k = Some x \<Longrightarrow> x \<in> set xs"
  by (auto simp: rendered_def split: if_splits)

lemma offered_clean:
  "b \<in> set (offeredSuggestions p exp) \<Longrightarrow> b \<noteq> [] \<and> trim b = b"
proof -
  assume "b \<in> set (offeredSuggestions p exp)"
  then have "b \<in> set (suggestions p exp)"
    unfolding offeredSuggestions_def by (rule in_set_takeD)
  then have "b \<in> set (getSuggestedBullets (exp_role exp @ js '' '' @ exp_company exp) (summary p))"
    by (simp add: suggestions_def)
  then show ?thesis by (rule getSuggestedBullets_clean)
qed

text \<open>What each event does to the list of experiences.\<close>

lemma step_ExperienceChange:
  "ui_step (ExperienceChange k f v) d = Some d' \<Longrightarrow>
     \<exists>exp :: Experience. rendered (experiences d) k = Some exp \<and>
       experiences d' = handleExperienceChange (exp_id exp) (experienceFieldUpdate f v) (experiences d)"
  by (cases "rendered (experiences d) k") auto

lemma step_BulletsChange:
  "ui_step (BulletsChange k v) d = Some d' \<Longrightarrow>
     \<exists>exp :: Experience. rendered (experiences d) k = Some exp \<and>
       experiences d' = handleExperienceChange (exp_id exp)
         (noExperienceUpdates\<lparr>new_exp_bullets := Some (linesOfTextArea v)\<rparr>) (experiences d)"
  by (cases "rendered (experiences d) k") auto

lemma step_AcceptSuggestion:
  "ui_step (AcceptSuggestion k suggestion) d = Some d' \<Longrightarrow>
     \<exists>exp :: Experience. rendered (experiences d) k = Some exp \<and>
       suggestion \<in> set (offeredSuggestions (personal d) exp) \<and>
       experiences d' = handleExperienceChange (exp_id exp)
         (noExperienceUpdates\<lparr>new_exp_bullets := Some (exp_bullets exp @ [suggestion])\<rparr>)
         (experiences d)"
  by (cases "rendered (experiences d) k") (auto split: if_splits)

lemma step_RemoveRole:
  "ui_step (RemoveRole k) d = Some d' \<Longrightarrow>
     \<exists>exp :: Experience. experiences d' = filter (\<lambda>item. exp_id item \<noteq> exp_id exp) (experiences d)"
  by (cases "rendered (experiences d) k") (auto split: if_splits)

lemma step_AddRole:
  "ui_step (AddRole i) d = Some d' \<Longrightarrow> experiences d' = experiences d @ [createExperience i]"
  by auto

lemma step_other:
  "ui_step (PersonalChange pf v) d = Some d' \<Longrightarrow> experiences d' = experiences d"
  "ui_step (AddProject i) d = Some d' \<Longrightarrow> experiences d' = experiences d"
  "ui_step (ProjectChange k jf v) d = Some d' \<Longrightarrow> experiences d' = experiences d"
  "ui_step (HighlightsChange k v) d = Some d' \<Longrightarrow> experiences d' = experiences d"
  "ui_step (RemoveProject k) d = Some d' \<Longrightarrow> experiences d' = experiences d"
  "ui_step (AddEducation i) d = Some d' \<Longrightarrow> experiences d' = experiences d"
  "ui_step (EducationChange k ef v) d = Some d' \<Longrightarrow> experiences d' = experiences d"
  "ui_step (RemoveEducation k) d = Some d' \<Longrightarrow> experiences d' = experiences d"
  "ui_step (AddBlock i) d = Some d' \<Longrightarrow> experiences d' = experiences d"
  "ui_step (SkillChange k sf v) d = Some d' \<Longrightarrow> experiences d' = experiences d"
  "ui_step (RemoveBlock k) d = Some d' \<Longrightarrow> experiences d' = experiences d"
  by (auto split: option.splits if_splits)

text \<open>Every event keeps the bullets non-empty and trimmed; so they are in every reachable document.\<close>

lemma inv_ExperienceChange:
  assumes inv: "\<forall>exp\<in>set (experiences d). \<forall>b\<in>set (exp_bullets exp). b \<noteq> [] \<and> trim b = b" and st: "ui_step (ExperienceChange k f v) d = Some d'"
  shows "\<forall>exp\<in>set (experiences d'). \<forall>b\<in>set (exp_bullets exp). b \<noteq> [] \<and> trim b = b"
proof -
  from step_ExperienceChange [OF st] obtain exp :: Experience where
    e: "experiences d' = handleExperienceChange (exp_id exp) (experienceFieldUpdate f v) (experiences d)"
    by blast
  show ?thesis
    unfolding e
    by (rule handleExperienceChange_bullets [OF inv]) (simp add: experienceFieldUpdate_bullets)
qed

lemma inv_BulletsChange:
  assumes inv: "\<forall>exp\<in>set (experiences d). \<forall>b\<in>set (exp_bullets exp). b \<noteq> [] \<and> trim b = b" and st: "ui_step (BulletsChange k v) d = Some d'"
  shows "\<forall>exp\<in>set (experiences d'). \<forall>b\<in>set (exp_bullets exp). b \<noteq> [] \<and> trim b = b"
proof -
  from step_BulletsChange [OF st] obtain exp :: Experience where
    e: "experiences d' = handleExperienceChange (exp_id exp)
         (noExperienceUpdates\<lparr>new_exp_bullets := Some (linesOfTextArea v)\<rparr>) (experiences d)"
    by blast
  show ?thesis
    unfolding e
    by (rule handleExperienceChange_bullets [OF inv]) (simp add: linesOfTextArea_clean)
qed

lemma inv_AcceptSuggestion:
  assumes inv: "\<forall>exp\<in>set (experiences d). \<forall>b\<in>set (exp_bullets exp). b \<noteq> [] \<and> trim b = b" and st: "ui_step (AcceptSuggestion k suggestion) d = Some d'"
  shows "\<forall>exp\<in>set (experiences d'). \<forall>b\<in>set (exp_bullets exp). b \<noteq> [] \<and> trim b = b"
proof -
  from step_AcceptSuggestion [OF st] obtain exp :: Experience where
    r: "rendered (experiences d) k = Some exp"
    and o: "suggestion \<in> set (offeredSuggestions (personal d) exp)"
    and e: "experiences d' = handleExperienceChange (exp_id exp)
         (noExperienceUpdates\<lparr>new_exp_bullets := Some (exp_bullets exp @ [suggestion])\<rparr>)
         (experiences d)"
    by blast
  have "\<forall>b\<in>set (exp_bullets exp @ [suggestion]). b \<noteq> [] \<and> trim b = b"
    using inv rendered_Some [OF r] offered_clean [OF o] by auto
  then show ?thesis
    unfolding e
    by (intro handleExperienceChange_bullets [OF inv]) simp
qed

lemma inv_AddRole:
  assumes inv: "\<forall>exp\<in>set (experiences d). \<forall>b\<in>set (exp_bullets exp). b \<noteq> [] \<and> trim b = b" and st: "ui_step (AddRole i) d = Some d'"
  shows "\<forall>exp\<in>set (experiences d'). \<forall>b\<in>set (exp_bullets exp). b \<noteq> [] \<and> trim b = b"
  unfolding step_AddRole [OF st] using inv by (auto simp: createExperience_def)

lemma inv_RemoveRole:
  assumes inv: "\<forall>exp\<in>set (experiences d). \<forall>b\<in>set (exp_bullets exp). b \<noteq> [] \<and> trim b = b" and st: "ui_step (RemoveRole k) d = Some d'"
  shows "\<forall>exp\<in>set (experiences d'). \<forall>b\<in>set (exp_bullets exp). b \<noteq> [] \<and> trim b = b"
proof -
  from step_RemoveRole [OF st] obtain exp :: Experience where
    e: "experiences d' = filter (\<lambda>item. exp_id item \<noteq> exp_id exp) (experiences d)"
    by blast
  show ?thesis unfolding e using inv by auto
qed

lemma ui_step_bullets:
  assumes inv: "\<forall>exp\<in>set (experiences d). \<forall>b\<in>set (exp_bullets exp). b \<noteq> [] \<and> trim b = b"
    and st: "ui_step ev d = Some d'"
  shows "\<forall>exp\<in>set (experiences d'). \<forall>b\<in>set (exp_bullets exp). b \<noteq> [] \<and> trim b = b"
proof (cases ev)
  case (ExperienceChange k f v)
  from inv st [unfolded ExperienceChange] show ?thesis by (rule inv_ExperienceChange)
next
  case (BulletsChange k v)
  from inv st [unfolded BulletsChange] show ?thesis by (rule inv_BulletsChange)
next
  case (AcceptSuggestion k suggestion)
  from inv st [unfolded AcceptSuggestion] show ?thesis by (rule inv_AcceptSuggestion)
next
  case (AddRole i)
  from inv st [unfolded AddRole] show ?thesis by (rule inv_AddRole)
next
  case (RemoveRole k)
  from inv st [unfolded RemoveRole] show ?thesis by (rule inv_RemoveRole)
next
  case (PersonalChange f v)
  from st [unfolded PersonalChange] have "experiences d' = experiences d" by (rule step_other)
  then show ?thesis using inv by (simp only:)
next
  case (AddProject i)
  from st [unfolded AddProject] have "experiences d' = experiences d" by (rule step_other)
  then show ?thesis using inv by (simp only:)
next
  case (ProjectChange k f v)
  from st [unfolded ProjectChange] have "experiences d' = experiences d" by (rule step_other)
  then show ?thesis using inv by (simp only:)
next
  case (HighlightsChange k v)
  from st [unfolded HighlightsChange] have "experiences d' = experiences d" by (rule step_other)
  then show ?thesis using inv by (simp only:)
next
  case (RemoveProject k)
  from st [unfolded RemoveProject] have "experiences d' = experiences d" by (rule step_other)
  then show ?thesis using inv by (simp only:)
next
  case (AddEducation i)
  from st [unfolded AddEducation] have "experiences d' = experiences d" by (rule step_other)
  then show ?thesis using inv by (simp only:)
next
  case (EducationChange k f v)
  from st [unfolded EducationChange] have "experiences d' = experiences d" by (rule step_other)
  then show ?thesis using inv by (simp only:)
next
  case (RemoveEducation k)
  from st [unfolded RemoveEducation] have "experiences d' = experiences d" by (rule step_other)
  then show ?thesis using inv by (simp only:)
next
  case (AddBlock i)
  from st [unfolded AddBlock] have "experiences d' = experiences d" by (rule step_other)
  then show ?thesis using inv by (simp only:)
next
  case (SkillChange k f v)
  from st [unfolded SkillChange] have "experiences d' = experiences d" by (rule step_other)
  then show ?thesis using inv by (simp only:)
next
  case (RemoveBlock k)
  from st [unfolded RemoveBlock] have "experiences d' = experiences d" by (rule step_other)
  then show ?thesis using inv by (simp only:)
qed

lemma reachable_bullets:
  "reachable d \<Longrightarrow> \<forall>exp\<in>set (experiences d). \<forall>b\<in>set (exp_bullets exp). b \<noteq> [] \<and> trim b = b"
proof (induction rule: reachable.induct)
  case (init i1 i2 i3 i4)
  show ?case by (simp add: initialDocument_def createExperience_def)
next
  case (step d ev d')
  from step.IH step.hyps(2) show ?case by (rule ui_step_bullets)
qed

text \<open>The lines the bullets area stores, and the pieces \<open>split\<close> cuts a text into.\<close>

lemma length_linesOfTextArea:
  "length (linesOfTextArea v)
     = length (filter (\<lambda>line. \<exists>c\<in>set line. \<not> isWhiteSpace c) (split_newline v))"
proof -
  have "(\<lambda>line. 0 < length (trim line)) = (\<lambda>line. \<exists>c\<in>set line. \<not> isWhiteSpace c)"
    by (auto simp: trim_Nil_iff)
  then show ?thesis
    by (simp add: linesOfTextArea_def filter_map comp_def)
qed

lemma split_newline_nonempty: "split_newline s \<noteq> []"
  by (induction s) (auto split: list.splits)

lemma split_newline_join:
  "concat (map (\<lambda>line. 0x0A # line) (split_newline s)) = 0x0A # s
   \<and> (\<forall>line\<in>set (split_newline s). 0x0A \<notin> set line)"
  using split_newline_nonempty
  by (induction s) (auto split: list.splits)

lemma ui_step_BulletsChange:
  assumes "ui_step (BulletsChange k v) d = Some d'"
  shows "k < length (experiences d') \<and> exp_bullets (experiences d' ! k) = linesOfTextArea v"
proof -
  from step_BulletsChange [OF assms] obtain exp :: Experience where
    r: "rendered (experiences d) k = Some exp"
    and e: "experiences d' = handleExperienceChange (exp_id exp)
         (noExperienceUpdates\<lparr>new_exp_bullets := Some (linesOfTextArea v)\<rparr>) (experiences d)"
    by blast
  from r have "k < length (experiences d)" "experiences d ! k = exp"
    by (auto simp: rendered_def split: if_splits)
  then show ?thesis
    unfolding e
    by (simp add: handleExperienceChange_def spreadExperience_def overwrite_def)
qed

lemma lines_bulletsText: "linesOfTextArea bulletsText = [js ''a'', js ''b'']"
  by (simp add: linesOfTextArea_def bulletsText_def js_def trim_def isWhiteSpace_def)

text \<open>
  C10. In every document the form can reach, every bullet of every experience is non-empty
  and equal to its own trimming. The bullets area stores the lines of its text, trimmed,
  without the empty ones; each of these, and each suggested bullet, is non-empty and
  trimmed; after an edit of the bullets area the experience holds exactly these lines, and
  their number is the number of lines of the text that hold a unit that is not white space:
  a line of white space only is never counted as a bullet.
\<close>

theorem stored_bullets_trimmed:
  "(reachable d \<longrightarrow> (\<forall>exp\<in>set (experiences d). \<forall>b\<in>set (exp_bullets exp). b \<noteq> [] \<and> trim b = b))
   \<and> linesOfTextArea v = filter (\<lambda>line. line \<noteq> []) (map trim (split_newline v))
   \<and> (\<forall>b\<in>set (linesOfTextArea v). b \<noteq> [] \<and> trim b = b)
   \<and> (\<forall>b\<in>set (getSuggestedBullets role s). b \<noteq> [] \<and> trim b = b)
   \<and> (ui_step (BulletsChange k v) d = Some d' \<longrightarrow>
        k < length (experiences d') \<and> exp_bullets (experiences d' ! k) = linesOfTextArea v)
   \<and> length (linesOfTextArea v)
        = length (filter (\<lambda>line. \<exists>c\<in>set line. \<not> isWhiteSpace c) (split_newline v))"
proof -
  have a: "reachable d \<longrightarrow>
      (\<forall>exp\<in>set (experiences d). \<forall>b\<in>set (exp_bullets exp). b \<noteq> [] \<and> trim b = b)"
    using reachable_bullets by blast
  have b: "linesOfTextArea v = filter (\<lambda>line. line \<noteq> []) (map trim (split_newline v))"
    by (simp add: linesOfTextArea_def)
  have c: "\<forall>b\<in>set (linesOfTextArea v). b \<noteq> [] \<and> trim b = b"
    using linesOfTextArea_clean by blast
  have d: "\<forall>b\<in>set (getSuggestedBullets role s). b \<noteq> [] \<and> trim b = b"
    using getSuggestedBullets_clean by blast
  have e: "ui_step (BulletsChange k v) d = Some d' \<longrightarrow>
        k < length (experiences d') \<and> exp_bullets (experiences d' ! k) = linesOfTextArea v"
    using ui_step_BulletsChange by blast
  from a b c d e length_linesOfTextArea [of v] show ?thesis
    by (intro conjI)
qed

theorem stored_bullets_trimmed_witness:
  "ui_step (BulletsChange 0 bulletsText) (initialDocument [] [] [] []) =
     Some ((initialDocument [] [] [] [])
       \<lparr>experiences := [(createExperience [])\<lparr>exp_bullets := [js ''a'', js ''b'']\<rparr>]\<rparr>)
   \<and> reachable ((initialDocument [] [] [] [])
       \<lparr>experiences := [(createExperience [])\<lparr>exp_bullets := [js ''a'', js ''b'']\<rparr>]\<rparr>)
   \<and> length (split_newline bulletsText) = 3
   \<and> length (linesOfTextArea bulletsText) = 2
   \<and> js ''a'' \<noteq> [] \<and> trim (js ''a'') = js ''a''
   \<and> js ''b'' \<noteq> [] \<and> trim (js ''b'') = js ''b''"
  (is "ui_step ?ev ?d0 = Some ?d1 \<and> _")
proof -
  have st: "ui_step ?ev ?d0 = Some ?d1"
    by (simp add: rendered_def initialDocument_def lines_bulletsText handleExperienceChange_def
        spreadExperience_def overwrite_def noExperienceUpdates_def createExperience_def)
  have r: "reachable ?d1"
    using reachable.init [of "[]" "[]" "[]" "[]"] st by (rule reachable.step)
  note facts = stored_bullets_trimmed [of ?d1 bulletsText "[]" "[]" 0 ?d1]
  from facts r have "\<forall>exp\<in>set (experiences ?d1). \<forall>b\<in>set (exp_bullets exp). b \<noteq> [] \<and> trim b = b"
    by blast
  then have c: "js ''a'' \<noteq> [] \<and> trim (js ''a'') = js ''a'' \<and> js ''b'' \<noteq> [] \<and> trim (js ''b'') = js ''b''"
    by (simp add: initialDocument_def)
  have n: "length (split_newline bulletsText) = 3"
    by (simp add: bulletsText_def js_def)
  have m: "length (linesOfTextArea bulletsText) = 2"
    by (simp add: lines_bulletsText)
  from st r n m c show ?thesis by (intro conjI) simp_all
qed

section \<open>Export: the text of a string\<close>

text \<open>The four hexadecimal digits of a code unit, and the unit back from them.\<close>

lemma and_F_less: "(c :: unit16) AND 0xF < 16"
  by (rule le_less_trans [OF word_and_le1]) simp

lemma drop_12_less: "drop_bit 12 (c :: unit16) < 16"
proof -
  have "unat c < 2 ^ 16" using unsigned_less [of c] by simp
  then have "unat c div 2 ^ 12 < 16" by simp
  then show ?thesis
    by (simp add: word_less_nat_alt drop_bit_eq_div unat_div)
qed

lemma nibbles: "push_bit 12 (drop_bit 12 c) OR push_bit 8 (drop_bit 8 c AND 0xF) OR push_bit 4 (drop_bit 4 c AND 0xF) OR (c AND 0xF) = (c :: unit16)"
proof -
  have m: "(0xF :: unit16) = mask 4" by (simp add: mask_eq_exp_minus_1)
  show ?thesis
    unfolding m
  proof (rule bit_word_eqI)
    fix n :: nat
    assume "n < LENGTH(16)"
    then consider "n < 4" | "4 \<le> n" "n < 8" | "8 \<le> n" "n < 12" | "12 \<le> n" "n < 16"
      by fastforce
    then show "bit (push_bit 12 (drop_bit 12 c) OR push_bit 8 (drop_bit 8 c AND mask 4)
          OR push_bit 4 (drop_bit 4 c AND mask 4) OR (c AND mask 4)) n = bit c n"
      by cases (auto simp: bit_simps)
  qed
qed

lemma hexValue_hexDigit: "n < 16 \<Longrightarrow> hexValue (hexDigit n) = Some n"
  unfolding hexValue_def hexDigit_def
  by (auto simp: word_less_nat_alt word_le_nat_alt unat_sub_if' unat_word_ariths split: if_splits)

lemma consResult_Some [simp]: "consResult c (Some (str, rest)) = Some (c # str, rest)"
  by (simp add: consResult_def)

lemma parseChars_plain:
  "c \<noteq> 0x22 \<Longrightarrow> c \<noteq> 0x5C \<Longrightarrow> \<not> c < 0x20 \<Longrightarrow> parseChars (c # t) = consResult c (parseChars t)"
  by simp

lemma parseChars_u:
  assumes "hexValue h1 = Some a" "hexValue h2 = Some b" "hexValue h3 = Some c'" "hexValue h4 = Some d"
  shows "parseChars (0x5C # 0x75 # h1 # h2 # h3 # h4 # t)
    = consResult (push_bit 12 a OR push_bit 8 b OR push_bit 4 c' OR d) (parseChars t)"
  using assms by simp

lemma parseChars_UnicodeEscape:
  "parseChars (UnicodeEscape c @ t) = consResult c (parseChars t)"
proof -
  have "parseChars (UnicodeEscape c @ t)
      = consResult (push_bit 12 (drop_bit 12 c) OR push_bit 8 (drop_bit 8 c AND 0xF)
          OR push_bit 4 (drop_bit 4 c AND 0xF) OR (c AND 0xF)) (parseChars t)"
    unfolding UnicodeEscape_def append.simps
    by (rule parseChars_u) (rule hexValue_hexDigit, rule drop_12_less and_F_less)+
  then show ?thesis by (simp only: nibbles)
qed

lemma parseChars_quoteUnit:
  "parseChars (quoteUnit c @ t) = consResult c (parseChars t)"
  by (simp add: quoteUnit_def parseChars_UnicodeEscape unescape_def)

lemma surrogate_plain:
  assumes "isLeadingSurrogate c \<or> isTrailingSurrogate c"
  shows "c \<noteq> 0x22" "c \<noteq> 0x5C" "\<not> c < 0x20"
  using assms
  by (auto simp: isLeadingSurrogate_def isTrailingSurrogate_def word_le_nat_alt word_less_nat_alt)

text \<open>Reading a quoted string back gives the string, whatever its code units.\<close>

lemma parseChars_quoteUnits:
  "parseChars (quoteUnits s @ 0x22 # rest) = Some (s, rest)"
proof (induction s rule: quoteUnits.induct)
  case 1
  show ?case by simp
next
  case (2 c)
  have "parseChars (quoteUnit c @ 0x22 # rest) = consResult c (parseChars (0x22 # rest))"
    by (rule parseChars_quoteUnit)
  then show ?case by simp
next
  case (3 c d s)
  show ?case
  proof (cases "isLeadingSurrogate c \<and> isTrailingSurrogate d")
    case True
    then have "parseChars (c # d # quoteUnits s @ 0x22 # rest)
        = consResult c (consResult d (parseChars (quoteUnits s @ 0x22 # rest)))"
      by (simp add: parseChars_plain surrogate_plain del: parseChars.simps(2))
    with True 3(1) show ?thesis by (simp del: parseChars.simps(2))
  next
    case False
    have "parseChars (quoteUnit c @ quoteUnits (d # s) @ 0x22 # rest)
        = consResult c (parseChars (quoteUnits (d # s) @ 0x22 # rest))"
      by (rule parseChars_quoteUnit)
    with False 3(2) show ?thesis by (auto simp del: parseChars.simps(2))
  qed
qed

declare parseChars.simps [simp del]

section \<open>Export: the text of a value\<close>

text \<open>White space before a value, and the first unit of a value's text.\<close>

lemma skipWs_ws: "list_all isJSONWhiteSpace w \<Longrightarrow> skipWs (w @ s) = skipWs s"
  by (induction w) (auto simp: skipWs_def)

lemma skipWs_head: "\<not> isJSONWhiteSpace c \<Longrightarrow> skipWs (c # s) = c # s"
  by (simp add: skipWs_def)

lemma parseValue_ws: "list_all isJSONWhiteSpace w \<Longrightarrow> parseValue n (w @ s) = parseValue n s"
  by (cases n) (simp_all add: skipWs_ws)

lemma not_ws [simp]:
  "\<not> isJSONWhiteSpace 0x22" "\<not> isJSONWhiteSpace 0x5B" "\<not> isJSONWhiteSpace 0x5D"
  "\<not> isJSONWhiteSpace 0x7B" "\<not> isJSONWhiteSpace 0x7D" "\<not> isJSONWhiteSpace 0x2C"
  "\<not> isJSONWhiteSpace 0x3A"
  by (simp_all add: isJSONWhiteSpace_def)

lemma is_ws [simp]: "isJSONWhiteSpace 0x0A" "isJSONWhiteSpace 0x20"
  by (simp_all add: isJSONWhiteSpace_def)

text \<open>The shape of a bracketed, non-empty list of texts.\<close>

lemma wrap_shape:
  assumes "list_all isJSONWhiteSpace gap" "list_all isJSONWhiteSpace indent" "partial \<noteq> []"
  shows "\<exists>w1 w2. list_all isJSONWhiteSpace w1 \<and> list_all isJSONWhiteSpace w2 \<and>
    wrap opening closing gap indent (indent @ gap) partial
      = opening @ w1 @ joinWith (0x2C # w1) partial @ w2 @ closing"
proof (cases "gap = []")
  case True
  with assms(3) have "wrap opening closing gap indent (indent @ gap) partial
      = opening @ [] @ joinWith (0x2C # []) partial @ [] @ closing"
    by (simp add: wrap_def)
  then show ?thesis by (intro exI [of _ "[]"]) simp
next
  case False
  with assms(3) have "wrap opening closing gap indent (indent @ gap) partial
      = opening @ (0x0A # indent @ gap) @ joinWith (0x2C # (0x0A # indent @ gap)) partial
          @ (0x0A # indent) @ closing"
    by (simp add: wrap_def)
  moreover have "list_all isJSONWhiteSpace (0x0A # indent @ gap)"
    "list_all isJSONWhiteSpace (0x0A # indent)"
    using assms(1,2) by simp_all
  ultimately show ?thesis by blast
qed

lemma ser_head:
  "\<exists>c t. SerializeJSONProperty v gap indent = c # t \<and> (c = 0x22 \<or> c = 0x5B \<or> c = 0x7B)"
  by (cases v) (auto simp: QuoteJSONString_def wrap_def)

lemma defineProperty_distinct:
  "distinct (map fst (acc @ ms)) \<Longrightarrow> \<forall>m\<in>set ms. arrayIndex (fst m) = None \<Longrightarrow>
     foldl defineProperty acc ms = acc @ ms"
proof (induction ms arbitrary: acc)
  case Nil
  then show ?case by simp
next
  case (Cons m ms)
  then have "fst m \<notin> fst ` set acc" by auto
  moreover have "arrayIndex (fst m) = None" using Cons.prems(2) by simp
  ultimately have "defineProperty acc m = acc @ [m]" by (simp add: defineProperty_def)
  moreover have "distinct (map fst ((acc @ [m]) @ ms))" using Cons.prems(1) by simp
  moreover have "\<forall>m\<in>set ms. arrayIndex (fst m) = None" using Cons.prems(2) by simp
  ultimately show ?case using Cons.IH [of "acc @ [m]"] by simp
qed

text \<open>One step of the parser at a time.\<close>

lemma parseValue_string:
  "parseValue (Suc n) (0x22 # quoteUnits s @ 0x22 # rest) = Some (JString s, rest)"
  by (simp add: skipWs_head parseChars_quoteUnits)

lemma parseValue_empty_array: "parseValue (Suc n) (0x5B # 0x5D # rest) = Some (JArray [], rest)"
  by (simp add: skipWs_head)

lemma parseValue_empty_object: "parseValue (Suc n) (0x7B # 0x7D # rest) = Some (JObject [], rest)"
  by (simp add: skipWs_head)

lemma parseValue_array:
  assumes "list_all isJSONWhiteSpace w" "c = 0x22 \<or> c = 0x5B \<or> c = 0x7B"
    and "parseElements n (c # t) = Some (vs, rest)"
  shows "parseValue (Suc n) (0x5B # w @ c # t) = Some (JArray vs, rest)"
proof -
  have "skipWs (w @ c # t) = c # t"
    using assms(1,2) by (auto simp: skipWs_ws skipWs_head)
  with assms(2,3) show ?thesis by (auto simp: skipWs_head)
qed

lemma parseValue_object:
  assumes "list_all isJSONWhiteSpace w"
    and "parseMembers n (0x22 # t) = Some (ms, rest)"
  shows "parseValue (Suc n) (0x7B # w @ 0x22 # t) = Some (JObject (foldl defineProperty [] ms), rest)"
proof -
  have "skipWs (w @ 0x22 # t) = 0x22 # t"
    using assms(1) by (simp add: skipWs_ws skipWs_head)
  with assms(2) show ?thesis by (simp add: skipWs_head)
qed

lemma parseElements_last:
  assumes "parseValue n s = Some (v, w @ 0x5D # rest)" "list_all isJSONWhiteSpace w"
  shows "parseElements (Suc n) s = Some ([v], rest)"
proof -
  have "skipWs (w @ 0x5D # rest) = 0x5D # rest"
    using assms(2) by (simp add: skipWs_ws skipWs_head)
  with assms(1) show ?thesis by simp
qed

lemma parseElements_more:
  assumes "parseValue n s = Some (v, 0x2C # r)" "parseElements n r = Some (vs, rest)"
  shows "parseElements (Suc n) s = Some (v # vs, rest)"
  using assms by (simp add: skipWs_head)

lemma parseMembers_last:
  assumes "list_all isJSONWhiteSpace w0" "list_all isJSONWhiteSpace w"
    and "parseValue n r = Some (v, w @ 0x7D # rest)"
  shows "parseMembers (Suc n) (w0 @ 0x22 # quoteUnits k @ 0x22 # 0x3A # r) = Some ([(k, v)], rest)"
proof -
  have "skipWs (w @ 0x7D # rest) = 0x7D # rest"
    using assms(2) by (simp add: skipWs_ws skipWs_head)
  with assms(1,3) show ?thesis
    by (simp add: skipWs_ws skipWs_head parseChars_quoteUnits)
qed

lemma parseMembers_more:
  assumes "list_all isJSONWhiteSpace w0"
    and "parseValue n r = Some (v, 0x2C # r')" "parseMembers n r' = Some (ms, rest)"
  shows "parseMembers (Suc n) (w0 @ 0x22 # quoteUnits k @ 0x22 # 0x3A # r) = Some ((k, v) # ms, rest)"
  using assms by (simp add: skipWs_ws skipWs_head parseChars_quoteUnits)

declare parseValue.simps [simp del] parseElements.simps [simp del] parseMembers.simps [simp del]

lemma joinWith_Cons: "xs \<noteq> [] \<Longrightarrow> joinWith sep (x # xs) = x @ sep @ joinWith sep xs"
  by (cases xs) simp_all

lemma parseElements_join:
  assumes "vs \<noteq> []"
    and "\<And>v n rest. v \<in> set vs \<Longrightarrow> callDepth v \<le> n \<Longrightarrow> parseValue n (ser v @ rest) = Some (v, rest)"
    and "list_all isJSONWhiteSpace w1" "list_all isJSONWhiteSpace w2" "list_all isJSONWhiteSpace w0"
    and "sum_list (map (\<lambda>v. Suc (callDepth v)) vs) \<le> n"
  shows "parseElements n (w0 @ joinWith (0x2C # w1) (map ser vs) @ w2 @ 0x5D # rest) = Some (vs, rest)"
  using assms
proof (induction vs arbitrary: n w0 rule: list_nonempty_induct)
  case (single v)
  then obtain n' where n: "n = Suc n'" "callDepth v \<le> n'"
    by (cases n) auto
  have "parseValue n' (ser v @ w2 @ 0x5D # rest) = Some (v, w2 @ 0x5D # rest)"
    using single.prems(1) n(2) by simp
  then have "parseValue n' (w0 @ ser v @ w2 @ 0x5D # rest) = Some (v, w2 @ 0x5D # rest)"
    using single.prems(4) by (simp add: parseValue_ws)
  then show ?case
    unfolding n(1) using single.prems(3) by (simp add: parseElements_last)
next
  case (cons v vs)
  then obtain n' where n: "n = Suc n'" "callDepth v \<le> n'"
    "sum_list (map (\<lambda>v. Suc (callDepth v)) vs) \<le> n'"
    by (cases n) auto
  let ?more = "joinWith (0x2C # w1) (map ser vs) @ w2 @ 0x5D # rest"
  have "parseValue n' (ser v @ 0x2C # w1 @ ?more) = Some (v, 0x2C # w1 @ ?more)"
    using cons.prems(1) n(2) by simp
  then have a: "parseValue n' (w0 @ ser v @ 0x2C # w1 @ ?more) = Some (v, 0x2C # w1 @ ?more)"
    using cons.prems(4) by (simp add: parseValue_ws)
  have b: "parseElements n' (w1 @ ?more) = Some (vs, rest)"
    using cons.IH [where n = n' and ?w0.0 = w1] cons.prems n(3) by simp
  have "parseElements (Suc n') (w0 @ ser v @ 0x2C # w1 @ ?more) = Some (v # vs, rest)"
    using a b by (rule parseElements_more)
  then show ?case
    unfolding n(1) using cons.hyps by (simp add: joinWith_Cons)
qed

lemma parseMembers_join:
  assumes "ms \<noteq> []"
    and "\<And>m n rest. m \<in> set ms \<Longrightarrow> callDepth (snd m) \<le> n \<Longrightarrow>
           parseValue n (ser (snd m) @ rest) = Some (snd m, rest)"
    and "list_all isJSONWhiteSpace w1" "list_all isJSONWhiteSpace w2" "list_all isJSONWhiteSpace w0"
    and "list_all isJSONWhiteSpace sp"
    and "sum_list (map (\<lambda>m. Suc (callDepth (snd m))) ms) \<le> n"
  shows "parseMembers n
      (w0 @ joinWith (0x2C # w1) (map (\<lambda>m. QuoteJSONString (fst m) @ [0x3A] @ sp @ ser (snd m)) ms)
         @ w2 @ 0x7D # rest)
    = Some (ms, rest)"
  using assms
proof (induction ms arbitrary: n w0 rule: list_nonempty_induct)
  case (single m)
  then obtain n' where n: "n = Suc n'" "callDepth (snd m) \<le> n'"
    by (cases n) auto
  have "parseValue n' (ser (snd m) @ w2 @ 0x7D # rest) = Some (snd m, w2 @ 0x7D # rest)"
    using single.prems(1) n(2) by simp
  then have "parseValue n' (sp @ ser (snd m) @ w2 @ 0x7D # rest) = Some (snd m, w2 @ 0x7D # rest)"
    using single.prems(5) by (simp add: parseValue_ws)
  with single.prems(4) single.prems(3)
  have "parseMembers (Suc n')
      (w0 @ 0x22 # quoteUnits (fst m) @ 0x22 # 0x3A # sp @ ser (snd m) @ w2 @ 0x7D # rest)
      = Some ([(fst m, snd m)], rest)"
    by (rule parseMembers_last)
  then show ?case
    unfolding n(1) by (simp add: QuoteJSONString_def)
next
  case (cons m ms)
  then obtain n' where n: "n = Suc n'" "callDepth (snd m) \<le> n'"
    "sum_list (map (\<lambda>m. Suc (callDepth (snd m))) ms) \<le> n'"
    by (cases n) auto
  let ?more = "joinWith (0x2C # w1)
      (map (\<lambda>m. QuoteJSONString (fst m) @ [0x3A] @ sp @ ser (snd m)) ms) @ w2 @ 0x7D # rest"
  have "parseValue n' (ser (snd m) @ 0x2C # w1 @ ?more) = Some (snd m, 0x2C # w1 @ ?more)"
    using cons.prems(1) n(2) by simp
  then have a: "parseValue n' (sp @ ser (snd m) @ 0x2C # w1 @ ?more) = Some (snd m, 0x2C # w1 @ ?more)"
    using cons.prems(5) by (simp add: parseValue_ws)
  have b: "parseMembers n' (w1 @ ?more) = Some (ms, rest)"
    using cons.IH [where n = n' and ?w0.0 = w1] cons.prems n(3) by simp
  from cons.prems(4) a b
  have "parseMembers (Suc n')
      (w0 @ 0x22 # quoteUnits (fst m) @ 0x22 # 0x3A # sp @ ser (snd m) @ 0x2C # w1 @ ?more)
      = Some ((fst m, snd m) # ms, rest)"
    by (rule parseMembers_more)
  then show ?case
    unfolding n(1) using cons.hyps by (simp add: joinWith_Cons QuoteJSONString_def)
qed

lemma joinWith_ser_head:
  assumes "vs \<noteq> []"
  shows "\<exists>c t. joinWith sep (map (\<lambda>v. SerializeJSONProperty v gap indent) vs) = c # t
    \<and> (c = 0x22 \<or> c = 0x5B \<or> c = 0x7B)"
proof -
  from assms obtain v vs' where vs: "vs = v # vs'" by (cases vs) auto
  obtain c t where "SerializeJSONProperty v gap indent = c # t" "c = 0x22 \<or> c = 0x5B \<or> c = 0x7B"
    using ser_head by blast
  then show ?thesis
    unfolding vs by (cases vs') auto
qed

lemma joinWith_member_head:
  assumes "ms \<noteq> []"
  shows "\<exists>t. joinWith sep (map (\<lambda>m. QuoteJSONString (fst m) @ f m) ms) = 0x22 # t"
proof -
  from assms obtain m ms' where "ms = m # ms'" by (cases ms) auto
  then show ?thesis by (cases ms') (auto simp: QuoteJSONString_def)
qed

text \<open>
  The parser reads the text of a value back, for every gap and indentation made of white
  space and every depth of calls from \<open>callDepth\<close> on, leaving the text that follows.
\<close>

lemma parseValue_Serialize:
  assumes gap: "list_all isJSONWhiteSpace gap"
  shows "list_all isJSONWhiteSpace indent \<Longrightarrow> plainNames v \<Longrightarrow> callDepth v \<le> n \<Longrightarrow>
    parseValue n (SerializeJSONProperty v gap indent @ rest) = Some (v, rest)"
proof (induction v arbitrary: indent n rest)
  case (JString s)
  then obtain n' where "n = Suc n'" by (cases n) auto
  then show ?case by (simp add: QuoteJSONString_def parseValue_string)
next
  case (JArray vs)
  from JArray.prems(3) obtain n' where n: "n = Suc n'"
    "sum_list (map (\<lambda>v. Suc (callDepth v)) vs) \<le> n'"
    by (cases n) auto
  let ?ser = "\<lambda>v. SerializeJSONProperty v gap (indent @ gap)"
  show ?case
  proof (cases "vs = []")
    case True
    then show ?thesis by (simp add: n(1) wrap_def parseValue_empty_array)
  next
    case False
    have ind: "list_all isJSONWhiteSpace (indent @ gap)"
      using gap JArray.prems(1) by simp
    from False have "map ?ser vs \<noteq> []" by simp
    from wrap_shape [OF gap JArray.prems(1) this, of "[0x5B]" "[0x5D]"]
    obtain w1 w2 where w: "list_all isJSONWhiteSpace w1" "list_all isJSONWhiteSpace w2"
      and shape: "SerializeJSONProperty (JArray vs) gap indent
          = [0x5B] @ w1 @ joinWith (0x2C # w1) (map ?ser vs) @ w2 @ [0x5D]"
      by auto
    have el: "parseElements n' ([] @ joinWith (0x2C # w1) (map ?ser vs) @ w2 @ 0x5D # rest)
        = Some (vs, rest)"
    proof (rule parseElements_join [OF False _ w])
      fix v m r
      assume "v \<in> set vs" "callDepth v \<le> m"
      then show "parseValue m (?ser v @ r) = Some (v, r)"
        using JArray.IH [of v "indent @ gap" m r] ind JArray.prems(2) by simp
    qed (use n(2) in simp_all)
    obtain c t where ct: "joinWith (0x2C # w1) (map ?ser vs) = c # t"
      "c = 0x22 \<or> c = 0x5B \<or> c = 0x7B"
      using joinWith_ser_head [OF False] by blast
    have "parseValue (Suc n') (0x5B # w1 @ c # (t @ w2 @ 0x5D # rest)) = Some (JArray vs, rest)"
      using w(1) ct(2) el unfolding ct(1) by (intro parseValue_array) simp_all
    then show ?thesis
      unfolding n(1) shape using ct(1) by simp
  qed
next
  case (JObject ms)
  from JObject.prems(3) obtain n' where n: "n = Suc n'"
    "sum_list (map (\<lambda>m. Suc (callDepth (snd m))) ms) \<le> n'"
    by (cases n) auto
  let ?ser = "\<lambda>v. SerializeJSONProperty v gap (indent @ gap)"
  let ?sp = "if gap = [] then [] else [0x20 :: unit16]"
  let ?member = "\<lambda>m. QuoteJSONString (fst m) @ [0x3A] @ ?sp @ ?ser (snd m)"
  have partial: "map (\<lambda>(k, strP). QuoteJSONString k @ [0x3A] @ ?sp @ strP)
        (map (map_prod id ?ser) ms) = map ?member ms"
    by (simp add: case_prod_beta)
  show ?case
  proof (cases "ms = []")
    case True
    then show ?thesis by (simp add: n(1) wrap_def parseValue_empty_object)
  next
    case False
    have ind: "list_all isJSONWhiteSpace (indent @ gap)"
      using gap JObject.prems(1) by simp
    from False have "map ?member ms \<noteq> []" by simp
    from wrap_shape [OF gap JObject.prems(1) this, of "[0x7B]" "[0x7D]"]
    obtain w1 w2 where w: "list_all isJSONWhiteSpace w1" "list_all isJSONWhiteSpace w2"
      and shape: "SerializeJSONProperty (JObject ms) gap indent
          = [0x7B] @ w1 @ joinWith (0x2C # w1) (map ?member ms) @ w2 @ [0x7D]"
      unfolding SerializeJSONProperty.simps partial by auto
    have sp: "list_all isJSONWhiteSpace ?sp" by simp
    have el: "parseMembers n' ([] @ joinWith (0x2C # w1) (map ?member ms) @ w2 @ 0x7D # rest)
        = Some (ms, rest)"
    proof (rule parseMembers_join [OF False _ w _ sp])
      fix m k r
      assume m: "m \<in> set ms" "callDepth (snd m) \<le> k"
      have "snd m \<in> Basic_BNFs.snds m" by (cases m) simp
      with m show "parseValue k (?ser (snd m) @ r) = Some (snd m, r)"
        using JObject.IH [of m "snd m" "indent @ gap" k r] ind JObject.prems(2) by simp
    qed (use n(2) in simp_all)
    obtain t where t: "joinWith (0x2C # w1) (map ?member ms) = 0x22 # t"
      using joinWith_member_head [OF False, of "0x2C # w1" "\<lambda>m. [0x3A] @ ?sp @ ?ser (snd m)"]
      by auto
    have "parseValue (Suc n') (0x7B # w1 @ 0x22 # (t @ w2 @ 0x7D # rest))
        = Some (JObject (foldl defineProperty [] ms), rest)"
      using w(1) el unfolding t by (intro parseValue_object) simp_all
    moreover have "foldl defineProperty [] ms = ms"
      using JObject.prems(2) defineProperty_distinct [of "[]" ms] by simp
    ultimately show ?thesis
      unfolding n(1) shape using t by simp
  qed
qed

lemma joinWith_length:
  "sep \<noteq> [] \<Longrightarrow> sum_list (map (\<lambda>x. Suc (length x)) xs) \<le> Suc (length (joinWith sep xs))"
proof (induction sep xs rule: joinWith.induct)
  case (3 sep x y xs)
  have sep: "1 \<le> length sep"
    using 3(2) by (cases sep) simp_all
  have "sum_list (map (\<lambda>x. Suc (length x)) (x # y # xs))
      = Suc (length x) + sum_list (map (\<lambda>x. Suc (length x)) (y # xs))"
    by simp
  also have "\<dots> \<le> Suc (length x) + Suc (length (joinWith sep (y # xs)))"
    using 3(1) [OF 3(2)] by (rule add_left_mono)
  also have "\<dots> \<le> Suc (length x + length sep + length (joinWith sep (y # xs)))"
    using sep by linarith
  finally show ?case by simp
qed simp_all

lemma wrap_length:
  assumes "length opening = 1" "length closing = 1"
  shows "Suc (sum_list (map (\<lambda>x. Suc (length x)) partial))
    \<le> length (wrap opening closing gap stepback indent partial)"
proof (cases "partial = []")
  case True
  with assms show ?thesis by (simp add: wrap_def)
next
  case False
  have a: "sum_list (map (\<lambda>x. Suc (length x)) partial) \<le> Suc (length (joinWith [0x2C] partial))"
    by (rule joinWith_length) simp
  have b: "sum_list (map (\<lambda>x. Suc (length x)) partial)
      \<le> Suc (length (joinWith ([0x2C, 0x0A] @ indent) partial))"
    by (rule joinWith_length) simp
  from False assms a b show ?thesis by (simp add: wrap_def)
qed

lemma sum_list_mono_map:
  "(\<And>x. x \<in> set xs \<Longrightarrow> f x \<le> (g x :: nat)) \<Longrightarrow> sum_list (map f xs) \<le> sum_list (map g xs)"
  by (induction xs) (auto intro: add_mono)

text \<open>The text of a value is at least as long as the depth of calls it needs.\<close>

lemma callDepth_length: "callDepth v \<le> length (SerializeJSONProperty v gap indent)"
proof (induction v arbitrary: indent)
  case (JString s)
  show ?case by (simp add: QuoteJSONString_def)
next
  case (JArray vs)
  let ?ser = "\<lambda>v. SerializeJSONProperty v gap (indent @ gap)"
  have "sum_list (map (\<lambda>v. Suc (callDepth v)) vs) \<le> sum_list (map (\<lambda>v. Suc (length (?ser v))) vs)"
    by (rule sum_list_mono_map) (simp add: JArray.IH)
  also have "\<dots> = sum_list (map (\<lambda>x. Suc (length x)) (map ?ser vs))"
    by (simp add: comp_def)
  finally have "Suc (sum_list (map (\<lambda>v. Suc (callDepth v)) vs))
      \<le> Suc (sum_list (map (\<lambda>x. Suc (length x)) (map ?ser vs)))"
    by simp
  also have "\<dots> \<le> length (wrap [0x5B] [0x5D] gap indent (indent @ gap) (map ?ser vs))"
    by (rule wrap_length) simp_all
  finally show ?case by simp
next
  case (JObject ms)
  let ?ser = "\<lambda>v. SerializeJSONProperty v gap (indent @ gap)"
  let ?sp = "if gap = [] then [] else [0x20 :: unit16]"
  let ?member = "\<lambda>m. QuoteJSONString (fst m) @ [0x3A] @ ?sp @ ?ser (snd m)"
  have partial: "map (\<lambda>(k, strP). QuoteJSONString k @ [0x3A] @ ?sp @ strP)
        (map (map_prod id ?ser) ms) = map ?member ms"
    by (simp add: case_prod_beta)
  have "sum_list (map (\<lambda>m. Suc (callDepth (snd m))) ms)
      \<le> sum_list (map (\<lambda>m. Suc (length (?member m))) ms)"
  proof (rule sum_list_mono_map)
    fix m assume "m \<in> set ms"
    moreover have "snd m \<in> Basic_BNFs.snds m" by (cases m) simp
    ultimately have "callDepth (snd m) \<le> length (?ser (snd m))"
      by (rule JObject.IH)
    then show "Suc (callDepth (snd m)) \<le> Suc (length (?member m))" by simp
  qed
  also have "\<dots> = sum_list (map (\<lambda>x. Suc (length x)) (map ?member ms))"
    by (simp add: comp_def)
  finally have "Suc (sum_list (map (\<lambda>m. Suc (callDepth (snd m))) ms))
      \<le> Suc (sum_list (map (\<lambda>x. Suc (length x)) (map ?member ms)))"
    by simp
  also have "\<dots> \<le> length (wrap [0x7B] [0x7D] gap indent (indent @ gap) (map ?member ms))"
    by (rule wrap_length) simp_all
  finally show ?case
    unfolding SerializeJSONProperty.simps partial by simp
qed

lemma JSON_parse_stringify:
  assumes "plainNames v"
  shows "JSON_parse (JSON_stringify v space) = Some v"
proof -
  let ?gap = "replicate (min 10 space) (0x20 :: unit16)"
  let ?text = "SerializeJSONProperty v ?gap []"
  have gap: "list_all isJSONWhiteSpace ?gap"
    by (simp add: list_all_iff)
  have "callDepth v \<le> 2 * length ?text + 2"
    using callDepth_length [of v ?gap "[]"] by simp
  with gap assms have "parseValue (2 * length ?text + 2) (?text @ []) = Some (v, [])"
    by (intro parseValue_Serialize) simp_all
  then show ?thesis
    by (simp add: JSON_parse_def JSON_stringify_def skipWs_def)
qed

text \<open>Names that are array indices, and names that are not.\<close>

lemma arrayIndex_examples:
  "arrayIndex (js ''0'') = Some 0" "arrayIndex (js ''4294967294'') = Some 4294967294"
  "arrayIndex (js ''4294967295'') = None" "arrayIndex (js ''01'') = None"
  "arrayIndex (js ''1a'') = None" "arrayIndex [] = None" "arrayIndex (js ''id'') = None"
  by code_simp+

text \<open>
  The parser on texts written by hand: white space of every kind, an escape with an upper
  case digit, an escaped solidus, a name used twice, names that are array indices; and
  three syntax errors.
\<close>

lemma JSON_parse_examples:
  "JSON_parse (js ''{ '' @ [0x22] @ js ''a'' @ [0x22] @ js '' : [ '' @ [0x22] @ js ''x'' @ [0x5C]
      @ js ''u004A'' @ [0x5C] @ js ''/'' @ [0x22] @ js '' , '' @ [0x22, 0x22] @ js '' ] ,''
      @ [0x0D, 0x0A, 0x09] @ [0x22] @ js ''a'' @ [0x22] @ js '' : '' @ [0x22, 0x5C] @ js ''n''
      @ [0x22] @ js '' , '' @ [0x22] @ js ''b'' @ [0x22] @ js '':{} } '')
     = Some (JObject [(js ''a'', JString [0x0A]), (js ''b'', JObject [])])"
  "JSON_parse (js ''[ '' @ [0x22] @ js ''x'' @ [0x5C] @ js ''u004A'' @ [0x5C] @ js ''/''
      @ [0x22] @ js '' , [] ]'')
     = Some (JArray [JString (js ''xJ/''), JArray []])"
  "JSON_parse (js ''{'' @ [0x22] @ js ''b'' @ [0x22] @ js '':[],'' @ [0x22] @ js ''10'' @ [0x22]
      @ js '':[],'' @ [0x22] @ js ''9'' @ [0x22] @ js '':[],'' @ [0x22] @ js ''07'' @ [0x22]
      @ js '':[],'' @ [0x22] @ js ''b'' @ [0x22] @ js '':{}}'')
     = Some (JObject [(js ''9'', JArray []), (js ''10'', JArray []), (js ''b'', JObject []),
          (js ''07'', JArray [])])"
  "JSON_parse (js ''[,]'') = None"
  "JSON_parse [0x22, 0x0A, 0x22] = None"
  "JSON_parse (js ''[] []'') = None"
  by code_simp+

section \<open>Export: the text never holds a lone surrogate\<close>

lemma loneSurrogateFree_Cons:
  "\<not> isLeadingSurrogate c \<Longrightarrow> \<not> isTrailingSurrogate c \<Longrightarrow>
     loneSurrogateFree (c # s) = loneSurrogateFree s"
  by (cases s) simp_all

lemma loneSurrogateFree_append:
  "loneSurrogateFree a \<Longrightarrow> loneSurrogateFree b \<Longrightarrow> loneSurrogateFree (a @ b)"
proof (induction a rule: loneSurrogateFree.induct)
  case 1
  then show ?case by simp
next
  case (2 c)
  then show ?case by (simp add: loneSurrogateFree_Cons)
next
  case (3 c d s)
  show ?case
  proof (cases "isLeadingSurrogate c \<and> isTrailingSurrogate d")
    case True
    with 3 show ?thesis by simp
  next
    case False
    with 3 have "\<not> isLeadingSurrogate c" "\<not> isTrailingSurrogate c"
      "loneSurrogateFree ((d # s) @ b)"
      by auto
    then show ?thesis by (simp add: loneSurrogateFree_Cons)
  qed
qed

lemma loneSurrogateFree_plain:
  "list_all (\<lambda>c. \<not> isLeadingSurrogate c \<and> \<not> isTrailingSurrogate c) s \<Longrightarrow> loneSurrogateFree s"
  by (induction s) (simp_all add: loneSurrogateFree_Cons)

lemma ascii_plain: "c < 0x80 \<Longrightarrow> \<not> isLeadingSurrogate c \<and> \<not> isTrailingSurrogate c"
  by (auto simp: isLeadingSurrogate_def isTrailingSurrogate_def word_le_nat_alt word_less_nat_alt)

lemma hexDigit_ascii: "n < 16 \<Longrightarrow> hexDigit n < 0x80"
  by (auto simp: hexDigit_def word_less_nat_alt word_le_nat_alt unat_sub_if' unat_word_ariths
      split: if_splits)

lemma quoteUnit_plain:
  "list_all (\<lambda>c. \<not> isLeadingSurrogate c \<and> \<not> isTrailingSurrogate c) (quoteUnit c)"
  using and_F_less [of c] and_F_less [of "drop_bit 4 c"] and_F_less [of "drop_bit 8 c"]
    drop_12_less [of c]
  by (simp add: quoteUnit_def UnicodeEscape_def ascii_plain hexDigit_ascii)

lemma loneSurrogateFree_quoteUnits: "loneSurrogateFree (quoteUnits s)"
proof (induction s rule: quoteUnits.induct)
  case 1
  show ?case by simp
next
  case (2 c)
  show ?case by (simp add: loneSurrogateFree_plain quoteUnit_plain)
next
  case (3 c d s)
  then show ?case
    by (auto intro: loneSurrogateFree_append loneSurrogateFree_plain quoteUnit_plain)
qed

lemma loneSurrogateFree_Quote: "loneSurrogateFree (QuoteJSONString s)"
  unfolding QuoteJSONString_def
  by (intro loneSurrogateFree_append loneSurrogateFree_quoteUnits)
    (simp_all add: ascii_plain)

lemma loneSurrogateFree_joinWith:
  "loneSurrogateFree sep \<Longrightarrow> \<forall>x\<in>set xs. loneSurrogateFree x \<Longrightarrow> loneSurrogateFree (joinWith sep xs)"
  by (induction sep xs rule: joinWith.induct) (auto intro: loneSurrogateFree_append)

lemma loneSurrogateFree_wrap:
  assumes "loneSurrogateFree opening" "loneSurrogateFree closing" "loneSurrogateFree stepback"
    "loneSurrogateFree indent" "\<forall>x\<in>set partial. loneSurrogateFree x"
  shows "loneSurrogateFree (wrap opening closing gap stepback indent partial)"
proof -
  have nl: "loneSurrogateFree [0x0A]" and comma: "loneSurrogateFree [0x2C]"
    by (simp_all add: ascii_plain)
  have sep: "loneSurrogateFree ([0x2C, 0x0A] @ indent)"
    using assms(4) by (simp add: ascii_plain loneSurrogateFree_Cons)
  have j1: "loneSurrogateFree (joinWith [0x2C] partial)"
    using comma assms(5) by (rule loneSurrogateFree_joinWith)
  have j2: "loneSurrogateFree (joinWith ([0x2C, 0x0A] @ indent) partial)"
    using sep assms(5) by (rule loneSurrogateFree_joinWith)
  have a: "loneSurrogateFree (opening @ closing)"
    by (intro loneSurrogateFree_append assms)
  have b: "loneSurrogateFree (opening @ joinWith [0x2C] partial @ closing)"
    by (intro loneSurrogateFree_append assms j1)
  have c: "loneSurrogateFree (opening @ [0x0A] @ indent @ joinWith ([0x2C, 0x0A] @ indent) partial
      @ [0x0A] @ stepback @ closing)"
    by (intro loneSurrogateFree_append assms j2 nl)
  from a b c show ?thesis by (simp add: wrap_def)
qed

lemma loneSurrogateFree_spaces: "loneSurrogateFree (replicate n 0x20)"
  by (rule loneSurrogateFree_plain) (simp add: list_all_iff ascii_plain)

lemma loneSurrogateFree_Serialize:
  assumes "loneSurrogateFree gap"
  shows "loneSurrogateFree indent \<Longrightarrow> loneSurrogateFree (SerializeJSONProperty v gap indent)"
proof (induction v arbitrary: indent)
  case (JString s)
  show ?case by (simp add: loneSurrogateFree_Quote)
next
  case (JArray vs)
  have "loneSurrogateFree (indent @ gap)"
    using JArray.prems assms by (rule loneSurrogateFree_append)
  with JArray show ?case
    by (auto intro!: loneSurrogateFree_wrap simp: ascii_plain)
next
  case (JObject ms)
  have ind: "loneSurrogateFree (indent @ gap)"
    using JObject.prems assms by (rule loneSurrogateFree_append)
  have "loneSurrogateFree (QuoteJSONString (fst m) @ [0x3A] @ (if gap = [] then [] else [0x20])
      @ SerializeJSONProperty (snd m) gap (indent @ gap))" if "m \<in> set ms" for m
  proof -
    have "snd m \<in> Basic_BNFs.snds m" by (cases m) simp
    with that have "loneSurrogateFree (SerializeJSONProperty (snd m) gap (indent @ gap))"
      using ind by (rule JObject.IH)
    then have "loneSurrogateFree ([0x3A] @ (if gap = [] then [] else [0x20])
        @ SerializeJSONProperty (snd m) gap (indent @ gap))"
      by (cases "gap = []") (simp_all add: loneSurrogateFree_Cons ascii_plain)
    with loneSurrogateFree_Quote show ?thesis
      by (rule loneSurrogateFree_append)
  qed
  with JObject.prems ind show ?case
    by (auto intro!: loneSurrogateFree_wrap simp: ascii_plain case_prod_beta)
qed

lemma loneSurrogateFree_stringify: "loneSurrogateFree (JSON_stringify v space)"
  unfolding JSON_stringify_def
  by (rule loneSurrogateFree_Serialize) (simp_all add: loneSurrogateFree_spaces)

section \<open>Export: the document\<close>

text \<open>
  The exported object has no name twice and no name that is an array index; different
  documents export different objects.
\<close>

lemma arrayIndex_letter:
  "s \<noteq> [] \<Longrightarrow> \<not> isDigit (of_char (hd s)) \<Longrightarrow> arrayIndex (js s) = None"
  by (cases s) (simp_all add: arrayIndex_def js_def)

lemma plainNames_exportedValue: "plainNames (exportedValue d)"
  by (simp add: exportedValue_def personalValue_def experienceValue_def educationValue_def
      projectValue_def skillBlockValue_def js_eq_iff arrayIndex_letter isDigit_def)

lemma map_JString_eq: "map JString xs = map JString ys \<longleftrightarrow> xs = ys"
  by (rule inj_map_eq_map) (simp add: inj_on_def)

lemma personalValue_inj: "personalValue p = personalValue q \<Longrightarrow> p = q"
  by (cases p, cases q) (simp add: personalValue_def)

lemma experienceValue_inj: "experienceValue p = experienceValue q \<Longrightarrow> p = q"
  by (cases p, cases q) (simp add: experienceValue_def map_JString_eq)

lemma educationValue_inj: "educationValue p = educationValue q \<Longrightarrow> p = q"
  by (cases p, cases q) (simp add: educationValue_def)

lemma projectValue_inj: "projectValue p = projectValue q \<Longrightarrow> p = q"
  by (cases p, cases q) (simp add: projectValue_def map_JString_eq)

lemma skillBlockValue_inj: "skillBlockValue p = skillBlockValue q \<Longrightarrow> p = q"
  by (cases p, cases q) (simp add: skillBlockValue_def)

lemma map_inj_eq: "(\<And>x y. f x = f y \<Longrightarrow> x = y) \<Longrightarrow> map f xs = map f ys \<Longrightarrow> xs = ys"
  by (rule inj_map_eq_map [THEN iffD1, OF injI])

lemma exportedValue_inj:
  assumes "exportedValue d = exportedValue d'"
  shows "d = d'"
proof -
  from assms have v: "personalValue (personal d) = personalValue (personal d')"
    "map experienceValue (experiences d) = map experienceValue (experiences d')"
    "map educationValue (educations d) = map educationValue (educations d')"
    "map projectValue (projects d) = map projectValue (projects d')"
    "map skillBlockValue (skills d) = map skillBlockValue (skills d')"
    by (simp_all add: exportedValue_def)
  have "personal d = personal d'" using v(1) by (rule personalValue_inj)
  moreover have "experiences d = experiences d'"
    using experienceValue_inj v(2) by (rule map_inj_eq)
  moreover have "educations d = educations d'"
    using educationValue_inj v(3) by (rule map_inj_eq)
  moreover have "projects d = projects d'"
    using projectValue_inj v(4) by (rule map_inj_eq)
  moreover have "skills d = skills d'"
    using skillBlockValue_inj v(5) by (rule map_inj_eq)
  ultimately show ?thesis by (cases d, cases d') simp
qed

lemma stringify_prefix:
  "\<exists>rest. JSON_stringify (exportedValue d) 2
     = [0x7B, 0x0A] @ js ''  '' @ QuoteJSONString (js ''personal'') @ js '': '' @ [0x7B, 0x0A]
       @ js ''    '' @ QuoteJSONString (js ''fullName'') @ js '': ''
       @ QuoteJSONString (fullName (personal d)) @ rest"
  by (simp add: JSON_stringify_def exportedValue_def personalValue_def wrap_def js_def
      numeral_2_eq_2)

text \<open>The exported text of a small document, unit by unit.\<close>

lemma export_example_text:
  "JSON_stringify (exportedValue
      \<lparr>personal = adaPersonal, experiences = [(createExperience (js ''e1''))\<lparr>exp_bullets := [js ''a'']\<rparr>],
       educations = [], projects = [], skills = []\<rparr>) 2
   = joinWith [0x0A]
      [js ''{'',
       js ''  '' @ [0x22] @ js ''personal'' @ [0x22] @ js '': {'',
       js ''    '' @ [0x22] @ js ''fullName'' @ [0x22] @ js '': '' @ [0x22] @ js ''Ada'' @ [0x22] @ js '','',
       js ''    '' @ [0x22] @ js ''headline'' @ [0x22] @ js '': '' @ [0x22] @ js ''Engineer'' @ [0x22] @ js '','',
       js ''    '' @ [0x22] @ js ''email'' @ [0x22] @ js '': '' @ [0x22] @ js ''a@b.com'' @ [0x22] @ js '','',
       js ''    '' @ [0x22] @ js ''phone'' @ [0x22] @ js '': '' @ [0x22] @ [0x22] @ js '','',
       js ''    '' @ [0x22] @ js ''location'' @ [0x22] @ js '': '' @ [0x22] @ js ''NY'' @ [0x22] @ js '','',
       js ''    '' @ [0x22] @ js ''website'' @ [0x22] @ js '': '' @ [0x22] @ [0x22] @ js '','',
       js ''    '' @ [0x22] @ js ''linkedin'' @ [0x22] @ js '': '' @ [0x22] @ [0x22] @ js '','',
       js ''    '' @ [0x22] @ js ''summary'' @ [0x22] @ js '': '' @ [0x22] @ [0x22],
       js ''  },'',
       js ''  '' @ [0x22] @ js ''experiences'' @ [0x22] @ js '': ['',
       js ''    {'',
       js ''      '' @ [0x22] @ js ''id'' @ [0x22] @ js '': '' @ [0x22] @ js ''e1'' @ [0x22] @ js '','',
       js ''      '' @ [0x22] @ js ''role'' @ [0x22] @ js '': '' @ [0x22] @ [0x22] @ js '','',
       js ''      '' @ [0x22] @ js ''company'' @ [0x22] @ js '': '' @ [0x22] @ [0x22] @ js '','',
       js ''      '' @ [0x22] @ js ''location'' @ [0x22] @ js '': '' @ [0x22] @ [0x22] @ js '','',
       js ''      '' @ [0x22] @ js ''startDate'' @ [0x22] @ js '': '' @ [0x22] @ [0x22] @ js '','',
       js ''      '' @ [0x22] @ js ''endDate'' @ [0x22] @ js '': '' @ [0x22] @ [0x22] @ js '','',
       js ''      '' @ [0x22] @ js ''bullets'' @ [0x22] @ js '': ['',
       js ''        '' @ [0x22] @ js ''a'' @ [0x22],
       js ''      ]'',
       js ''    }'',
       js ''  ],'',
       js ''  '' @ [0x22] @ js ''educations'' @ [0x22] @ js '': [],'',
       js ''  '' @ [0x22] @ js ''projects'' @ [0x22] @ js '': [],'',
       js ''  '' @ [0x22] @ js ''skills'' @ [0x22] @ js '': []'',
       js ''}'']"
  by code_simp

text \<open>
  C8. For every document, the export offers a download named
  \<open>resume-builder-export.json\<close> whose text is the serialisation, with an indentation
  of 2, of an object with exactly the properties personal, experiences, educations,
  projects and skills, in this order, the four lists with the lengths of the document's
  lists. The text starts with the opening brace, a line feed, two spaces and the first
  property name, and has four spaces before the first property of the personal section. It
  holds no lone surrogate, so the blob's encoding keeps it. Parsing the text gives the
  exported object back, and the exported object determines the document: every field
  value, the length of every list and its order. The export is the click handler of a
  button, so it runs where a \<open>window\<close> object exists; its guard for a host without one
  returns before anything is serialised.
\<close>

theorem export_round_trip:
  "exportAsJson True d =
     Some \<lparr>download = js ''resume-builder-export.json'', blobType = js ''application/json'',
            blobText = JSON_stringify (exportedValue d) 2\<rparr>
   \<and> (\<exists>p es eds ps ss. exportedValue d =
         JObject [(js ''personal'', p), (js ''experiences'', JArray es),
           (js ''educations'', JArray eds), (js ''projects'', JArray ps), (js ''skills'', JArray ss)]
         \<and> length es = length (experiences d) \<and> length eds = length (educations d)
         \<and> length ps = length (projects d) \<and> length ss = length (skills d))
   \<and> (\<exists>rest. JSON_stringify (exportedValue d) 2
         = [0x7B, 0x0A] @ js ''  '' @ QuoteJSONString (js ''personal'') @ js '': '' @ [0x7B, 0x0A]
           @ js ''    '' @ QuoteJSONString (js ''fullName'') @ js '': ''
           @ QuoteJSONString (fullName (personal d)) @ rest)
   \<and> loneSurrogateFree (JSON_stringify (exportedValue d) 2)
   \<and> JSON_parse (JSON_stringify (exportedValue d) 2) = Some (exportedValue d)
   \<and> (\<forall>d'. exportedValue d' = exportedValue d \<longrightarrow> d' = d)
   \<and> exportAsJson False d = None"
proof -
  have a: "exportAsJson True d =
     Some \<lparr>download = js ''resume-builder-export.json'', blobType = js ''application/json'',
            blobText = JSON_stringify (exportedValue d) 2\<rparr>"
    by (simp add: exportAsJson_def)
  have b: "\<exists>p es eds ps ss. exportedValue d =
         JObject [(js ''personal'', p), (js ''experiences'', JArray es),
           (js ''educations'', JArray eds), (js ''projects'', JArray ps), (js ''skills'', JArray ss)]
         \<and> length es = length (experiences d) \<and> length eds = length (educations d)
         \<and> length ps = length (projects d) \<and> length ss = length (skills d)"
    by (simp add: exportedValue_def)
  have c: "JSON_parse (JSON_stringify (exportedValue d) 2) = Some (exportedValue d)"
    using plainNames_exportedValue by (rule JSON_parse_stringify)
  have e: "\<forall>d'. exportedValue d' = exportedValue d \<longrightarrow> d' = d"
    using exportedValue_inj by blast
  have f: "exportAsJson False d = None"
    by (simp add: exportAsJson_def)
  from a b stringify_prefix [of d] loneSurrogateFree_stringify [of "exportedValue d" 2] c e f
  show ?thesis by (intro conjI)
qed

theorem export_round_trip_witness:
  "exportAsJson True (initialDocument [] [] [] []) =
     Some \<lparr>download = js ''resume-builder-export.json'', blobType = js ''application/json'',
            blobText = JSON_stringify (exportedValue (initialDocument [] [] [] [])) 2\<rparr>
   \<and> JSON_parse (JSON_stringify (exportedValue (initialDocument [] [] [] [])) 2)
       = Some (exportedValue (initialDocument [] [] [] []))
   \<and> exportAsJson False (initialDocument [] [] [] []) = None"
  using export_round_trip [of "initialDocument [] [] [] []"] by (elim conjE) (intro conjI)

end
